theory Spec2Isabelle
  imports Complex_Main "HOL-Library.Word"
begin

section \<open>Data model\<close>

text \<open>
  The repository holds two variants of \<open>ChainToChainSwapService\<close>: the one that claims on
  the Bitcoin chain (it reacts to \<open>transaction.server.confirmed\<close>) and the
  confidential-chain one (it reacts to \<open>transaction.server.mempool\<close>). Definitions of
  the second carry the suffix \<open>_liquid\<close>; functions whose text is the same in both
  take the chain as a parameter.

  Buffers are byte lists. A hex string of the source is represented by the bytes it
  encodes; JSON strings, addresses, swap ids and raw transactions stay strings.
\<close>

type_synonym bytes = "8 word list"

datatype chain = BTC | Liquid

datatype ChainSwapTransactionStatus =
    CREATED | LOCKUP_PENDING | LOCKUP_CONFIRMED | CLAIM_PENDING
  | CLAIM_CONFIRMED | LOCKUP_FAILED | CLAIM_FAILED

text \<open>The numeric values of the enum.\<close>

fun statusCode :: "ChainSwapTransactionStatus \<Rightarrow> nat" where
  "statusCode CREATED = 0"
| "statusCode LOCKUP_PENDING = 1"
| "statusCode LOCKUP_CONFIRMED = 2"
| "statusCode CLAIM_PENDING = 3"
| "statusCode CLAIM_CONFIRMED = 4"
| "statusCode LOCKUP_FAILED = 5"
| "statusCode CLAIM_FAILED = 6"

text \<open>
  \<open>new Error(message)\<close> thrown by the service itself is \<open>Error message\<close>; what a
  library call or a REST call throws is \<open>LibraryError\<close> or \<open>ServiceError\<close>; a
  property access on \<open>undefined\<close> is \<open>TypeError\<close>.
\<close>

datatype error =
    Error string | LibraryError string | ServiceError string | TypeError

text \<open>
  A JavaScript number that results from the fee arithmetic: an integer amount, or one of the
  three values that are not finite.
\<close>

datatype js_number = Num int | PosInfinity | NegInfinity | NaN

record WithdrawChainSwapTransaction =
  entityId :: nat
  swapId :: string
  userAddress :: string
  claimPublicKey :: bytes
  claimSwapTree :: string
  claimBlindingKey :: bytes
  lockupPublicKey :: bytes
  lockupSwapTree :: string
  preimage :: bytes
  minerFees :: int
  boltzFee :: js_number
  feeRate :: rat

record txin =
  prevHash :: bytes
  prevIndex :: nat
  witness :: "bytes list"

record txout =
  outValue :: int
  outScript :: bytes

record tx =
  ins :: "txin list"
  outs :: "txout list"

text \<open>What \<open>detectSwap\<close> returns: the matching output and its index.\<close>

record swap_output =
  vout :: nat
  swapValue :: int
  swapScript :: bytes

text \<open>The object literal handed to \<open>constructClaimTransaction\<close>.\<close>

record claim_utxo =
  utxoOutput :: swap_output
  utxoPreimage :: bytes
  utxoCooperative :: bool
  utxoTxHash :: bytes
  utxoBlindingPrivateKey :: "bytes option"

record CreateChainSwapDto =
  dtoFrom :: string
  dtoTo :: string
  userLockAmount :: js_number
  dtoUserAddress :: string
  refundPublicKey :: bytes
  dtoClaimPublicKey :: bytes
  preimageHash :: bytes

record ChainSwapDataDto =
  serverPublicKey :: bytes
  swapTree :: string
  blindingKey :: bytes

record ChainSwapResponseDto =
  responseId :: string
  dtoLockupDetails :: ChainSwapDataDto
  dtoClaimDetails :: ChainSwapDataDto

record pair_fees =
  percentage :: rat
  minerFeeServer :: int
  minerFeeUserClaim :: int

record server_claim_details =
  serverPubNonce :: bytes
  transactionHash :: bytes

record partial_signature =
  pubNonce :: bytes
  partialSignature :: bytes

record lockup_send =
  lockupAmount :: js_number
  sendMinerFees :: int
  sendBoltzFee :: js_number
  sendFeeRate :: rat

text \<open>What \<open>createClaimTransaction\<close> returns; \<open>musig\<close> is the session object.\<close>

record claim_transaction_details =
  musig :: nat
  transaction :: tx
  swapOutput :: swap_output
  boltzPublicKey :: bytes

text \<open>A websocket message after \<open>JSON.parse\<close>; \<open>None\<close> is a missing or null field.\<close>

record transaction_info =
  txId :: "string option"
  txHex :: "string option"

record update_arg =
  argId :: string
  argStatus :: string
  argTransaction :: "transaction_info option"

record message =
  event :: "string option"
  args :: "update_arg option list option"

section \<open>Effects\<close>

text \<open>
  Everything the service does to the outside is an entry of a trace, in the order of the
  calls: status writes (\<open>updateChainSwapStatus\<close>, a logging mock in the source),
  websocket subscriptions, calls on a MuSig session (with what the call returned or
  threw), and REST calls. \<open>ClaimBTC t\<close> is the broadcast of transaction \<open>t\<close>, which
  the source posts as \<open>t.toHex()\<close>.
\<close>

datatype musig_op =
    Construct bytes "bytes list"
  | TweakMusig chain bytes
  | GetPublicNonce
  | AggregateNonces "(bytes \<times> bytes) list"
  | InitializeSession bytes
  | SignPartial
  | AddPartial bytes bytes
  | AggregatePartials

datatype effect =
    StatusUpdate ChainSwapTransactionStatus "string option"
  | Subscribe string "string list"
  | Unsubscribe string "string list"
  | RegisterListener string
  | MusigCall nat musig_op "error + bytes"
  | GetNetworkFee string
  | GetChainSwapFee
  | CreateChainSwap CreateChainSwapDto
  | GetClaimDetails chain string
  | ClaimChainSwap string bytes "bytes \<times> bytes" "nat \<times> string \<times> bytes"
  | ClaimBTC tx

text \<open>
  The state: the status last written, the number of \<open>randomBytes\<close> calls made, the
  number of MuSig sessions constructed, and the trace.
\<close>

record world =
  status :: ChainSwapTransactionStatus
  draws :: nat
  sessions :: nat
  trace :: "effect list"

text \<open>
  The surroundings of the service. The boltz-core, bitcoinjs-lib and liquidjs-lib functions
  and the swap service are not part of the repository: they are parameters. A library
  function is pure and may throw; an answer of the service or of a MuSig session may
  depend on everything that happened before (the trace). \<open>rnd k i\<close> is byte \<open>i\<close> of the
  \<open>k\<close>-th call of \<open>randomBytes\<close>. \<open>ceilQuotient x p\<close> is
  \<open>Math.ceil(x / (1 - p / 100))\<close> as the IEEE doubles of the source compute it: floating
  point is not modelled, so the rounding of the quotient is left to this parameter.
\<close>

record env =
  publicKey :: bytes
  rnd :: "nat \<Rightarrow> nat \<Rightarrow> 8 word"
  sha256 :: "bytes \<Rightarrow> bytes"
  ceilQuotient :: "int \<Rightarrow> rat \<Rightarrow> js_number"
  musigLib :: "effect list \<Rightarrow> nat \<Rightarrow> musig_op \<Rightarrow> error + bytes"
  deserializeSwapTree :: "string \<Rightarrow> error + bytes"
  transactionFromHex :: "string \<Rightarrow> error + tx"
  detectSwap :: "bytes \<Rightarrow> tx \<Rightarrow> swap_output option"
  toOutputScript :: "chain \<Rightarrow> string \<Rightarrow> error + bytes"
  fromConfidential :: "string \<Rightarrow> error + bytes"
  constructClaimTransaction ::
    "chain \<Rightarrow> claim_utxo list \<Rightarrow> bytes \<Rightarrow> int \<Rightarrow> bytes option \<Rightarrow> error + tx"
  targetFee :: "rat \<Rightarrow> (int \<Rightarrow> error + tx) \<Rightarrow> error + tx"
  getHash :: "tx \<Rightarrow> bytes"
  hashForWitnessV1 :: "chain \<Rightarrow> tx \<Rightarrow> nat \<Rightarrow> bytes list \<Rightarrow> int list \<Rightarrow> error + bytes"
  toHex :: "tx \<Rightarrow> string"
  getNetworkFee :: "effect list \<Rightarrow> string \<Rightarrow> error + rat"
  getChainSwapFee :: "effect list \<Rightarrow> error + pair_fees"
  createChainSwap :: "effect list \<Rightarrow> CreateChainSwapDto \<Rightarrow> error + ChainSwapResponseDto option"
  getClaimDetails :: "effect list \<Rightarrow> chain \<Rightarrow> string \<Rightarrow> error + server_claim_details"
  claimChainSwap ::
    "effect list \<Rightarrow> string \<Rightarrow> bytes \<Rightarrow> bytes \<times> bytes \<Rightarrow> nat \<times> string \<times> bytes
      \<Rightarrow> error + partial_signature"
  claimBTC :: "effect list \<Rightarrow> string \<Rightarrow> error + unit"

section \<open>Sequencing, exceptions\<close>

type_synonym 'a action = "world \<Rightarrow> (error + 'a) \<times> world"

definition ret :: "'a \<Rightarrow> 'a action" where
  "ret x w = (Inr x, w)"

definition throw :: "error \<Rightarrow> 'a action" where
  "throw e w = (Inl e, w)"

definition lift :: "error + 'a \<Rightarrow> 'a action" where
  "lift r w = (r, w)"

definition andThen :: "'a action \<Rightarrow> ('a \<Rightarrow> 'b action) \<Rightarrow> 'b action" where
  "andThen m f w = (case m w of (Inl e, w') \<Rightarrow> (Inl e, w') | (Inr x, w') \<Rightarrow> f x w')"

definition catch :: "'a action \<Rightarrow> (error \<Rightarrow> 'a action) \<Rightarrow> 'a action" where
  "catch m h w = (case m w of (Inl e, w') \<Rightarrow> h e w' | (Inr x, w') \<Rightarrow> (Inr x, w'))"

definition emit :: "effect \<Rightarrow> unit action" where
  "emit x w = (Inr (), w\<lparr>trace := trace w @ [x]\<rparr>)"

definition called :: "effect \<Rightarrow> (effect list \<Rightarrow> error + 'a) \<Rightarrow> 'a action" where
  \<comment> \<open>a REST call: the request is recorded, the answer may depend on the history\<close>
  "called x answer w = (answer (trace w), w\<lparr>trace := trace w @ [x]\<rparr>)"

section \<open>Primitives\<close>

definition randomBytes :: "env \<Rightarrow> nat \<Rightarrow> bytes action" where
  "randomBytes E n w = (Inr (map (rnd E (draws w)) [0..<n]), w\<lparr>draws := Suc (draws w)\<rparr>)"

definition musigCall :: "env \<Rightarrow> nat \<Rightarrow> musig_op \<Rightarrow> bytes action" where
  "musigCall E s op w =
     (let r = musigLib E (trace w) s op
      in (r, w\<lparr>trace := trace w @ [MusigCall s op r]\<rparr>))"

definition newMusig :: "env \<Rightarrow> bytes list \<Rightarrow> nat action" where
  \<comment> \<open>\<open>new Musig(zkp, keyPair, randomBytes(32), keys)\<close>: the seed is drawn in the argument list\<close>
  "newMusig E keys =
     andThen (randomBytes E 32) (\<lambda>seed w.
       let s = sessions w
       in andThen (musigCall E s (Construct seed keys)) (\<lambda>_. ret s)
            (w\<lparr>sessions := Suc s\<rparr>))"

definition updateChainSwapStatus ::
  "nat \<Rightarrow> ChainSwapTransactionStatus \<Rightarrow> string option \<Rightarrow> unit action" where
  "updateChainSwapStatus chainSwapTransactionEntityId st lockupTransactionHash w =
     (Inr (), w\<lparr>status := st, trace := trace w @ [StatusUpdate st lockupTransactionHash]\<rparr>)"

definition subscribe :: "string \<Rightarrow> string list \<Rightarrow> unit action" where
  "subscribe channel ids = emit (Subscribe channel ids)"

definition unsubscribe :: "string \<Rightarrow> string list \<Rightarrow> unit action" where
  "unsubscribe channel ids = emit (Unsubscribe channel ids)"

definition handleChainSwapStatusUpdates :: "WithdrawChainSwapTransaction \<Rightarrow> unit action" where
  \<comment> \<open>\<open>onMessage().subscribe(callback)\<close>: the callback is \<open>onMessage\<close> below\<close>
  "handleChainSwapStatusUpdates chainSwapEntity = emit (RegisterListener (swapId chainSwapEntity))"

definition setWitness :: "tx \<Rightarrow> bytes list \<Rightarrow> tx action" where
  \<comment> \<open>\<open>transaction.ins[0].witness = wit\<close>; with no input the assignment throws\<close>
  "setWitness t wit =
     (case ins t of
        [] \<Rightarrow> throw TypeError
      | i # rest \<Rightarrow> ret (t\<lparr>ins := i\<lparr>witness := wit\<rparr> # rest\<rparr>))"

section \<open>The claim pipeline\<close>

definition createClaimTransaction ::
  "env \<Rightarrow> bytes \<Rightarrow> WithdrawChainSwapTransaction \<Rightarrow> string option
    \<Rightarrow> claim_transaction_details action" where
  "createClaimTransaction E preimg swapEntity lockupTransactionHex =
     andThen (newMusig E [claimPublicKey swapEntity, publicKey E]) (\<lambda>m.
     andThen (lift (deserializeSwapTree E (claimSwapTree swapEntity))) (\<lambda>tree.
     andThen (musigCall E m (TweakMusig BTC tree)) (\<lambda>tweakedKey.
     andThen (case lockupTransactionHex of
                None \<Rightarrow> throw TypeError
              | Some h \<Rightarrow> lift (transactionFromHex E h)) (\<lambda>lockupTx.
     case detectSwap E tweakedKey lockupTx of
       None \<Rightarrow> throw (Error ''No swap output found in lockup transaction'')
     | Some out \<Rightarrow>
         andThen (lift (targetFee E (feeRate swapEntity) (\<lambda>fee.
                    case toOutputScript E BTC (userAddress swapEntity) of
                      Inl e \<Rightarrow> Inl e
                    | Inr script \<Rightarrow>
                        constructClaimTransaction E BTC
                          [\<lparr>utxoOutput = out, utxoPreimage = preimg, utxoCooperative = True,
                            utxoTxHash = getHash E lockupTx, utxoBlindingPrivateKey = None\<rparr>]
                          script fee None))) (\<lambda>t.
         ret \<lparr>musig = m, transaction = t, swapOutput = out,
              boltzPublicKey = claimPublicKey swapEntity\<rparr>)))))"

definition createClaimTransaction_liquid ::
  "env \<Rightarrow> bytes \<Rightarrow> WithdrawChainSwapTransaction \<Rightarrow> string
    \<Rightarrow> claim_transaction_details action" where
  "createClaimTransaction_liquid E preimg swapEntity lockupTransactionHex =
     andThen (newMusig E [claimPublicKey swapEntity, publicKey E]) (\<lambda>m.
     andThen (lift (deserializeSwapTree E (claimSwapTree swapEntity))) (\<lambda>tree.
     andThen (musigCall E m (TweakMusig Liquid tree)) (\<lambda>tweakedKey.
     andThen (lift (transactionFromHex E lockupTransactionHex)) (\<lambda>lockupTx.
     case detectSwap E tweakedKey lockupTx of
       None \<Rightarrow> throw (Error ''No swap output found in lockup transaction'')
     | Some out \<Rightarrow>
         andThen (lift (targetFee E 2 (\<lambda>fee.
                    case toOutputScript E Liquid (userAddress swapEntity) of
                      Inl e \<Rightarrow> Inl e
                    | Inr script \<Rightarrow>
                        (case fromConfidential E (userAddress swapEntity) of
                           Inl e \<Rightarrow> Inl e
                         | Inr blinding \<Rightarrow>
                             constructClaimTransaction E Liquid
                               [\<lparr>utxoOutput = out, utxoPreimage = preimg, utxoCooperative = True,
                                 utxoTxHash = getHash E lockupTx,
                                 utxoBlindingPrivateKey = Some (claimBlindingKey swapEntity)\<rparr>]
                               script fee (Some blinding))))) (\<lambda>t.
         ret \<lparr>musig = m, transaction = t, swapOutput = out,
              boltzPublicKey = claimPublicKey swapEntity\<rparr>)))))"

text \<open>
  \<open>getBoltzPartialSignature\<close> is the same text in both variants but for the REST method
  that fetches the server's claim details (\<open>getChainSwapClaimDetails\<close> in the Bitcoin
  variant, \<open>getSwapClaimDetails\<close> in the other): the chain parameter selects it. Both
  tweak the session with the confidential chain's \<open>tweakMusig\<close>.
\<close>

definition getBoltzPartialSignature ::
  "env \<Rightarrow> chain \<Rightarrow> bytes \<Rightarrow> WithdrawChainSwapTransaction \<Rightarrow> bytes \<Rightarrow> tx
    \<Rightarrow> partial_signature action" where
  "getBoltzPartialSignature E ch preimg swapEntity claimPubNonce claimTransaction =
     andThen (called (GetClaimDetails ch (swapId swapEntity))
                (\<lambda>h. getClaimDetails E h ch (swapId swapEntity))) (\<lambda>serverClaimDetails.
     andThen (newMusig E [lockupPublicKey swapEntity, publicKey E]) (\<lambda>m.
     andThen (lift (deserializeSwapTree E (lockupSwapTree swapEntity))) (\<lambda>tree.
     andThen (musigCall E m (TweakMusig Liquid tree)) (\<lambda>_.
     andThen (musigCall E m (AggregateNonces
                [(lockupPublicKey swapEntity, serverPubNonce serverClaimDetails)])) (\<lambda>_.
     andThen (musigCall E m (InitializeSession (transactionHash serverClaimDetails))) (\<lambda>_.
     andThen (musigCall E m SignPartial) (\<lambda>partialSig.
     andThen (musigCall E m GetPublicNonce) (\<lambda>ourNonce.
     andThen (called (ClaimChainSwap (swapId swapEntity) preimg (partialSig, ourNonce)
                        (0, toHex E claimTransaction, claimPubNonce))
                (\<lambda>h. claimChainSwap E h (swapId swapEntity) preimg (partialSig, ourNonce)
                        (0, toHex E claimTransaction, claimPubNonce))) (\<lambda>ourClaimDetails.
     ret ourClaimDetails)))))))))"

definition performChainSwapClaim ::
  "env \<Rightarrow> chain \<Rightarrow> claim_transaction_details \<Rightarrow> WithdrawChainSwapTransaction
    \<Rightarrow> partial_signature \<Rightarrow> unit action" where
  "performChainSwapClaim E ch claimDetails chainSwapEntity boltzPartialSig =
     andThen (musigCall E (musig claimDetails) (AggregateNonces
                [(boltzPublicKey claimDetails, pubNonce boltzPartialSig)])) (\<lambda>_.
     andThen (lift (hashForWitnessV1 E ch (transaction claimDetails) 0
                [swapScript (swapOutput claimDetails)]
                [swapValue (swapOutput claimDetails)])) (\<lambda>sighash.
     andThen (musigCall E (musig claimDetails) (InitializeSession sighash)) (\<lambda>_.
     andThen (musigCall E (musig claimDetails)
                (AddPartial (boltzPublicKey claimDetails)
                   (partialSignature boltzPartialSig))) (\<lambda>_.
     andThen (musigCall E (musig claimDetails) SignPartial) (\<lambda>_.
     andThen (musigCall E (musig claimDetails) AggregatePartials) (\<lambda>aggregated.
     andThen (setWitness (transaction claimDetails) [aggregated]) (\<lambda>finalized.
     called (ClaimBTC finalized)
       (\<lambda>h. claimBTC E h (toHex E finalized)))))))))"

text \<open>The body of the \<open>try\<close> of \<open>broadcastCoSignedClaimTransaction\<close>.\<close>

definition broadcastCoSignedClaimTransaction_try ::
  "env \<Rightarrow> WithdrawChainSwapTransaction \<Rightarrow> string option \<Rightarrow> unit action" where
  "broadcastCoSignedClaimTransaction_try E chainSwapEntity transactionHex =
     andThen (createClaimTransaction E (preimage chainSwapEntity) chainSwapEntity
                transactionHex) (\<lambda>claimTransactionDetails.
     andThen (musigCall E (musig claimTransactionDetails) GetPublicNonce) (\<lambda>nonce.
     andThen (getBoltzPartialSignature E BTC (preimage chainSwapEntity) chainSwapEntity nonce
                (transaction claimTransactionDetails)) (\<lambda>boltzPartialSignature.
     performChainSwapClaim E BTC claimTransactionDetails chainSwapEntity
       boltzPartialSignature)))"

definition broadcastCoSignedClaimTransaction ::
  "env \<Rightarrow> WithdrawChainSwapTransaction \<Rightarrow> string option \<Rightarrow> unit action" where
  "broadcastCoSignedClaimTransaction E chainSwapEntity transactionHex =
     catch (broadcastCoSignedClaimTransaction_try E chainSwapEntity transactionHex)
       (\<lambda>claimError.
          andThen (updateChainSwapStatus (entityId chainSwapEntity) CLAIM_FAILED None)
            (\<lambda>_. throw claimError))"

text \<open>
  The confidential-chain variant runs the pipeline inside the
  \<open>transaction.server.mempool\<close> case; its inner \<open>catch\<close> only logs and rethrows.
\<close>

definition serverMempool_try ::
  "env \<Rightarrow> WithdrawChainSwapTransaction \<Rightarrow> string \<Rightarrow> unit action" where
  "serverMempool_try E chainSwapEntity hex =
     andThen (createClaimTransaction_liquid E (preimage chainSwapEntity) chainSwapEntity hex)
       (\<lambda>claimTransactionDetails.
     andThen (musigCall E (musig claimTransactionDetails) GetPublicNonce) (\<lambda>nonce.
     andThen (getBoltzPartialSignature E Liquid (preimage chainSwapEntity) chainSwapEntity
                nonce (transaction claimTransactionDetails)) (\<lambda>boltzPartialSignature.
     andThen (performChainSwapClaim E Liquid claimTransactionDetails chainSwapEntity
                boltzPartialSignature) (\<lambda>_.
     updateChainSwapStatus (entityId chainSwapEntity) CLAIM_PENDING None))))"

definition serverMempool_liquid ::
  "env \<Rightarrow> WithdrawChainSwapTransaction \<Rightarrow> string option \<Rightarrow> unit action" where
  "serverMempool_liquid E chainSwapEntity hex =
     (case hex of
        None \<Rightarrow> throw (Error ''No transaction hex provided in server mempool event'')
      | Some h \<Rightarrow>
          if h = [] then throw (Error ''No transaction hex provided in server mempool event'')
          else catch (serverMempool_try E chainSwapEntity h) (\<lambda>claimError. throw claimError))"

definition finishChainSwap :: "WithdrawChainSwapTransaction \<Rightarrow> unit action" where
  "finishChainSwap chainSwapEntity =
     updateChainSwapStatus (entityId chainSwapEntity) CLAIM_CONFIRMED None"

section \<open>The message callback\<close>

definition transactionId :: "update_arg \<Rightarrow> string option" where
  \<comment> \<open>\<open>msg.args[0].transaction?.id\<close>\<close>
  "transactionId a = (case argTransaction a of None \<Rightarrow> None | Some t \<Rightarrow> txId t)"

definition transactionHex :: "update_arg \<Rightarrow> string option" where
  \<comment> \<open>\<open>msg.args[0].transaction?.hex\<close>\<close>
  "transactionHex a = (case argTransaction a of None \<Rightarrow> None | Some t \<Rightarrow> txHex t)"

definition failAndUnsubscribe ::
  "WithdrawChainSwapTransaction \<Rightarrow> ChainSwapTransactionStatus \<Rightarrow> unit action" where
  \<comment> \<open>the body shared by the three failure cases and by the outer \<open>catch\<close>\<close>
  "failAndUnsubscribe chainSwapEntity st =
     andThen (updateChainSwapStatus (entityId chainSwapEntity) st None)
       (\<lambda>_. unsubscribe ''swap.update'' [swapId chainSwapEntity])"

definition statusSwitch ::
  "env \<Rightarrow> WithdrawChainSwapTransaction \<Rightarrow> update_arg \<Rightarrow> unit action" where
  "statusSwitch E chainSwapEntity a =
     (if argStatus a = ''swap.created'' then
        updateChainSwapStatus (entityId chainSwapEntity) LOCKUP_PENDING None
      else if argStatus a = ''transaction.lockup'' then
        updateChainSwapStatus (entityId chainSwapEntity) LOCKUP_CONFIRMED (transactionId a)
      else if argStatus a = ''transaction.server.mempool'' then
        updateChainSwapStatus (entityId chainSwapEntity) CLAIM_PENDING (transactionId a)
      else if argStatus a = ''transaction.server.confirmed'' then
        broadcastCoSignedClaimTransaction E chainSwapEntity (transactionHex a)
      else if argStatus a = ''transaction.claimed'' then
        updateChainSwapStatus (entityId chainSwapEntity) CLAIM_CONFIRMED None
      else if argStatus a = ''transaction.lockupFailed'' then
        failAndUnsubscribe chainSwapEntity LOCKUP_FAILED
      else if argStatus a = ''transaction.claimFailed'' then
        failAndUnsubscribe chainSwapEntity CLAIM_FAILED
      else if argStatus a = ''swap.expired'' then
        failAndUnsubscribe chainSwapEntity LOCKUP_FAILED
      else ret ())"

definition statusSwitch_liquid ::
  "env \<Rightarrow> WithdrawChainSwapTransaction \<Rightarrow> update_arg \<Rightarrow> unit action" where
  "statusSwitch_liquid E chainSwapEntity a =
     (if argStatus a = ''swap.created'' then
        updateChainSwapStatus (entityId chainSwapEntity) LOCKUP_PENDING None
      else if argStatus a = ''transaction.lockup'' then
        updateChainSwapStatus (entityId chainSwapEntity) LOCKUP_CONFIRMED (transactionId a)
      else if argStatus a = ''transaction.server.mempool'' then
        serverMempool_liquid E chainSwapEntity (transactionHex a)
      else if argStatus a = ''transaction.claimed'' then
        andThen (finishChainSwap chainSwapEntity)
          (\<lambda>_. unsubscribe ''swap.update'' [swapId chainSwapEntity])
      else if argStatus a = ''transaction.lockupFailed'' then
        failAndUnsubscribe chainSwapEntity LOCKUP_FAILED
      else if argStatus a = ''transaction.claimFailed'' then
        failAndUnsubscribe chainSwapEntity CLAIM_FAILED
      else if argStatus a = ''swap.expired'' then
        failAndUnsubscribe chainSwapEntity LOCKUP_FAILED
      else ret ())"

text \<open>
  The callback: the two early returns, then the \<open>switch\<close> inside \<open>try\<close>, whose
  \<open>catch\<close> writes \<open>CLAIM_FAILED\<close> and unsubscribes. The parameter \<open>sw\<close> is the
  \<open>switch\<close> of the variant.
\<close>

definition dispatch ::
  "(update_arg \<Rightarrow> unit action) \<Rightarrow> WithdrawChainSwapTransaction \<Rightarrow> message \<Rightarrow> unit action" where
  "dispatch sw chainSwapEntity msg =
     (if event msg \<noteq> Some ''update'' then ret ()
      else case args msg of
        None \<Rightarrow> ret ()
      | Some [] \<Rightarrow> ret ()
      | Some (None # _) \<Rightarrow> ret ()
      | Some (Some a # _) \<Rightarrow>
          if argId a \<noteq> swapId chainSwapEntity then ret ()
          else catch (sw a) (\<lambda>e. failAndUnsubscribe chainSwapEntity CLAIM_FAILED))"

definition onMessage :: "env \<Rightarrow> WithdrawChainSwapTransaction \<Rightarrow> message \<Rightarrow> unit action" where
  "onMessage E chainSwapEntity = dispatch (statusSwitch E chainSwapEntity) chainSwapEntity"

definition onMessage_liquid ::
  "env \<Rightarrow> WithdrawChainSwapTransaction \<Rightarrow> message \<Rightarrow> unit action" where
  "onMessage_liquid E chainSwapEntity =
     dispatch (statusSwitch_liquid E chainSwapEntity) chainSwapEntity"

text \<open>
  A run delivers the messages one after the other, each handled to its end before the
  next (the order the transport delivers them in).
\<close>

fun deliver :: "(message \<Rightarrow> unit action) \<Rightarrow> message list \<Rightarrow> world \<Rightarrow> world" where
  "deliver h [] w = w"
| "deliver h (m # ms) w = deliver h ms (snd (h m w))"

section \<open>Starting a swap\<close>

text \<open>
  Amounts are integers (satoshis) and the percentage is a rational. The quotient and its
  ceiling are those of the doubles, through \<open>ceilQuotient\<close>; where they are not finite
  the source goes on, and so does the subtraction that gives the service fee. The sums and
  differences of integers are the exact ones, which is what the doubles of the source give
  for amounts and lockup amounts below \<open>2^53\<close>.
\<close>

fun minusAmount :: "js_number \<Rightarrow> int \<Rightarrow> js_number" where
  "minusAmount (Num a) b = Num (a - b)"
| "minusAmount PosInfinity b = PosInfinity"
| "minusAmount NegInfinity b = NegInfinity"
| "minusAmount NaN b = NaN"

definition calculateLockupSend :: "env \<Rightarrow> int \<Rightarrow> lockup_send action" where
  "calculateLockupSend E amount =
     andThen (called (GetNetworkFee ''BTC'') (\<lambda>h. getNetworkFee E h ''BTC'')) (\<lambda>claimTxFeeRate.
     andThen (called GetChainSwapFee (getChainSwapFee E)) (\<lambda>fees.
       let minerFees' = minerFeeServer fees + minerFeeUserClaim fees;
           lockupAmount' = ceilQuotient E (amount + minerFees') (percentage fees);
           boltzFee' = minusAmount (minusAmount lockupAmount' amount) minerFees'
       in ret \<lparr>lockupAmount = lockupAmount', sendMinerFees = minerFees',
               sendBoltzFee = boltzFee', sendFeeRate = claimTxFeeRate\<rparr>))"

definition mockSwapEntity ::
  "ChainSwapResponseDto \<Rightarrow> string \<Rightarrow> bytes \<Rightarrow> rat \<Rightarrow> js_number \<Rightarrow> int
    \<Rightarrow> WithdrawChainSwapTransaction" where
  "mockSwapEntity chainSwap userBtcAddress preimg rate bfee mfees =
     \<lparr>entityId = 1, swapId = responseId chainSwap, userAddress = userBtcAddress,
      claimPublicKey = serverPublicKey (dtoClaimDetails chainSwap),
      claimSwapTree = swapTree (dtoClaimDetails chainSwap),
      claimBlindingKey = blindingKey (dtoClaimDetails chainSwap),
      lockupPublicKey = serverPublicKey (dtoLockupDetails chainSwap),
      lockupSwapTree = swapTree (dtoLockupDetails chainSwap),
      preimage = preimg, minerFees = mfees, boltzFee = bfee, feeRate = rate\<rparr>"

definition requestChainSwap ::
  "env \<Rightarrow> string \<Rightarrow> js_number \<Rightarrow> bytes \<Rightarrow> ChainSwapResponseDto action" where
  \<comment> \<open>\<open>createChainSwap\<close> and the check of its answer, the same in the three entry points\<close>
  "requestChainSwap E userBtcAddress lockAmount preimg =
     (let dto = \<lparr>dtoFrom = ''L-BTC'', dtoTo = ''BTC'', userLockAmount = lockAmount,
                 dtoUserAddress = userBtcAddress, refundPublicKey = publicKey E,
                 dtoClaimPublicKey = publicKey E, preimageHash = sha256 E preimg\<rparr>
      in andThen (called (CreateChainSwap dto) (\<lambda>h. createChainSwap E h dto)) (\<lambda>answer.
           case answer of
             None \<Rightarrow> throw (Error ''Error creating Chain Swap'')
           | Some chainSwap \<Rightarrow>
               if responseId chainSwap = [] then throw (Error ''Error creating Chain Swap'')
               else ret chainSwap))"

definition startBoltzChainSwapWithListeners ::
  "env \<Rightarrow> string \<Rightarrow> int
    \<Rightarrow> (ChainSwapResponseDto \<times> WithdrawChainSwapTransaction) action" where
  "startBoltzChainSwapWithListeners E userBtcAddress amount =
     (if userBtcAddress = [] \<or> amount \<le> 0 then throw (Error ''Invalid address or amount'')
      else
        andThen (calculateLockupSend E amount) (\<lambda>sendParams.
        andThen (randomBytes E 32) (\<lambda>preimg.
        andThen (requestChainSwap E userBtcAddress (lockupAmount sendParams) preimg)
          (\<lambda>chainSwap.
        let entity = mockSwapEntity chainSwap userBtcAddress preimg (sendFeeRate sendParams)
                       (sendBoltzFee sendParams) (sendMinerFees sendParams)
        in andThen (subscribe ''swap.update'' [responseId chainSwap]) (\<lambda>_.
           andThen (handleChainSwapStatusUpdates entity) (\<lambda>_.
           ret (chainSwap, entity)))))))"

definition startBoltzChainSwap_liquid ::
  "env \<Rightarrow> string \<Rightarrow> int \<Rightarrow> ChainSwapResponseDto action" where
  "startBoltzChainSwap_liquid E userBtcAddress amount =
     (if userBtcAddress = [] \<or> amount \<le> 0 then throw (Error ''Invalid address or amount'')
      else
        andThen (randomBytes E 32) (\<lambda>preimg.
        requestChainSwap E userBtcAddress (Num amount) preimg))"

definition startBoltzChainSwapWithListeners_liquid ::
  "env \<Rightarrow> string \<Rightarrow> int
    \<Rightarrow> (ChainSwapResponseDto \<times> WithdrawChainSwapTransaction) action" where
  "startBoltzChainSwapWithListeners_liquid E userBtcAddress amount =
     (if userBtcAddress = [] \<or> amount \<le> 0 then throw (Error ''Invalid address or amount'')
      else
        andThen (randomBytes E 32) (\<lambda>preimg.
        andThen (requestChainSwap E userBtcAddress (Num amount) preimg) (\<lambda>chainSwap.
        let entity = mockSwapEntity chainSwap userBtcAddress preimg 0 (Num 0) 0
        in andThen (subscribe ''swap.update'' [responseId chainSwap]) (\<lambda>_.
           andThen (handleChainSwapStatusUpdates entity) (\<lambda>_.
           ret (chainSwap, entity))))))"

section \<open>Library functions, modelled\<close>

text \<open>
  Modelled from the spec: \<open>detectSwap\<close> of boltz-core is missing. It scans every output
  of the transaction for a Taproot-style output whose embedded 32-byte key equals the
  tweaked key, byte for byte, and returns the first match with its index, none if no output
  matches. The shape of such an output script (34 bytes: \<open>0x51\<close>, \<open>0x20\<close>, the key) is
  the one \<open>testDetectSwap\<close> checks by hand in the source.
\<close>

definition isTaprootOutputFor :: "bytes \<Rightarrow> txout \<Rightarrow> bool" where
  "isTaprootOutputFor key out \<longleftrightarrow>
     length (outScript out) = 34 \<and> take 2 (outScript out) = [0x51, 0x20] \<and>
     drop 2 (outScript out) = key"

text \<open>
  Modelled from the spec: the scan of \<open>detectSwap\<close> over the outputs from index \<open>i\<close>
  on, returning the first match.
\<close>

fun detectFrom :: "bytes \<Rightarrow> nat \<Rightarrow> txout list \<Rightarrow> swap_output option" where
  "detectFrom key i [] = None"
| "detectFrom key i (out # rest) =
     (if isTaprootOutputFor key out
      then Some \<lparr>vout = i, swapValue = outValue out, swapScript = outScript out\<rparr>
      else detectFrom key (Suc i) rest)"

text \<open>Modelled from the spec: \<open>detectSwap\<close>, the scan from the first output.\<close>

definition detectSwap_spec :: "bytes \<Rightarrow> tx \<Rightarrow> swap_output option" where
  "detectSwap_spec key t = detectFrom key 0 (outs t)"

text \<open>
  Modelled from the spec: \<open>constructClaimTransaction\<close> of boltz-core is missing. It
  produces a single-input, single-output transaction (plus a fee output on the confidential
  chain) that spends the detected output to the destination by the key path, so with no
  witness yet; the fee is deducted from the value, and a value of zero or less after the fee
  is a fatal error.
\<close>

definition constructClaimTransaction_spec ::
  "chain \<Rightarrow> claim_utxo list \<Rightarrow> bytes \<Rightarrow> int \<Rightarrow> bytes option \<Rightarrow> error + tx" where
  "constructClaimTransaction_spec ch utxos dest fee blinding =
     (case utxos of
        [u] \<Rightarrow>
          if swapValue (utxoOutput u) - fee \<le> 0 then Inl (LibraryError ''InsufficientFunds'')
          else Inr \<lparr>ins = [\<lparr>prevHash = utxoTxHash u, prevIndex = vout (utxoOutput u),
                            witness = []\<rparr>],
                    outs = \<lparr>outValue = swapValue (utxoOutput u) - fee, outScript = dest\<rparr> #
                           (if ch = Liquid then [\<lparr>outValue = fee, outScript = []\<rparr>] else [])\<rparr>
      | _ \<Rightarrow> Inl (LibraryError ''one output to claim expected''))"

text \<open>
  Modelled from the spec: \<open>targetFee\<close> of boltz-core is missing. It builds a candidate,
  measures it, recomputes the fee as size times rate, rebuilds, and repeats until the fee
  is stable within one unit; the number of rounds is bounded and exhaustion is fatal. The
  measure \<open>vsize\<close> of a transaction is a parameter; the bound of ten rounds and the
  first fee of 1 are choices of the model, as the spec names neither.
\<close>

fun targetFee_search ::
  "nat \<Rightarrow> (tx \<Rightarrow> nat) \<Rightarrow> rat \<Rightarrow> (int \<Rightarrow> error + tx) \<Rightarrow> int \<Rightarrow> error + tx" where
  "targetFee_search 0 vsize rate build fee = Inl (LibraryError ''fee search exhausted'')"
| "targetFee_search (Suc n) vsize rate build fee =
     (case build fee of
        Inl e \<Rightarrow> Inl e
      | Inr t \<Rightarrow>
          let fee' = \<lceil>of_nat (vsize t) * rate\<rceil>
          in if \<bar>fee' - fee\<bar> \<le> 1 then Inr t
             else targetFee_search n vsize rate build fee')"

text \<open>Modelled from the spec: \<open>targetFee\<close>, the search with its bound and first fee.\<close>

definition targetFee_spec :: "(tx \<Rightarrow> nat) \<Rightarrow> rat \<Rightarrow> (int \<Rightarrow> error + tx) \<Rightarrow> error + tx" where
  "targetFee_spec vsize rate build = targetFee_search 10 vsize rate build 1"

section \<open>A concrete scenario\<close>

text \<open>
  The scenario of the repository's test script: a swap for 25000 sats at 2 sat/vbyte, with a
  fee schedule of 0.25 percent, 300 sats of server miner fee and 200 sats of user claim
  fee. The lockup transaction pays the tweaked key at index 1, between two other outputs.
  The cryptographic functions are stand-ins that return fixed bytes. The quotient of the
  fee arithmetic is the exact one, which at the numbers of the scenario (25500 by 0.9975,
  ceiling 25564) is also what the doubles give.
\<close>

definition demoKey :: bytes where
  "demoKey = replicate 32 0xAB"

definition demoLockupTx :: tx where
  "demoLockupTx =
     \<lparr>ins = [\<lparr>prevHash = [0x01], prevIndex = 0, witness = [[0x30]]\<rparr>],
      outs = [\<lparr>outValue = 70000, outScript = [0x00, 0x14] @ replicate 20 0x11\<rparr>,
              \<lparr>outValue = 25200, outScript = [0x51, 0x20] @ demoKey\<rparr>,
              \<lparr>outValue = 1234, outScript = [0x51, 0x20] @ replicate 32 0xCD\<rparr>]\<rparr>"

definition demoMusig :: "effect list \<Rightarrow> nat \<Rightarrow> musig_op \<Rightarrow> error + bytes" where
  "demoMusig h s op =
     (case op of
        TweakMusig _ _ \<Rightarrow> Inr demoKey
      | GetPublicNonce \<Rightarrow> Inr [0x0A, of_nat s]
      | SignPartial \<Rightarrow> Inr [0x0B, of_nat s]
      | AggregatePartials \<Rightarrow> Inr [0x0C, of_nat s]
      | _ \<Rightarrow> Inr [])"

definition demoEnv :: env where
  "demoEnv =
     \<lparr>publicKey = [0x02, 0x01],
      rnd = (\<lambda>k i. of_nat k),
      sha256 = (\<lambda>b. 0x5A # b),
      ceilQuotient = (\<lambda>x p. if p = 100
                            then (if 0 < x then PosInfinity else if x < 0 then NegInfinity else NaN)
                            else Num \<lceil>of_int x / (1 - p / 100)\<rceil>),
      musigLib = demoMusig,
      deserializeSwapTree = (\<lambda>json. Inr [0x07]),
      transactionFromHex = (\<lambda>hex. if hex = ''lockup'' then Inr demoLockupTx
                                  else Inl (LibraryError ''not a transaction'')),
      detectSwap = detectSwap_spec,
      toOutputScript = (\<lambda>ch addr. Inr [0x00, 0x14, 0x22]),
      fromConfidential = (\<lambda>addr. Inr [0x03]),
      constructClaimTransaction = constructClaimTransaction_spec,
      targetFee = targetFee_spec (\<lambda>t. 111),
      getHash = (\<lambda>t. [0x99]),
      hashForWitnessV1 = (\<lambda>ch t i scripts values. Inr [0x51]),
      toHex = (\<lambda>t. if \<exists>i \<in> set (ins t). witness i \<noteq> [] then ''signed'' else ''unsigned''),
      getNetworkFee = (\<lambda>h asset. Inr 2),
      getChainSwapFee =
        (\<lambda>h. Inr \<lparr>percentage = 1 / 4, minerFeeServer = 300, minerFeeUserClaim = 200\<rparr>),
      createChainSwap = (\<lambda>h dto. Inr (Some
        \<lparr>responseId = ''swap1'',
         dtoLockupDetails = \<lparr>serverPublicKey = [0x02, 0x0F], swapTree = ''lockupTree'',
                              blindingKey = [0x04]\<rparr>,
         dtoClaimDetails = \<lparr>serverPublicKey = [0x02, 0x0E], swapTree = ''claimTree'',
                             blindingKey = []\<rparr>\<rparr>)),
      getClaimDetails = (\<lambda>h ch swap. Inr \<lparr>serverPubNonce = [0x0D], transactionHash = [0x0E]\<rparr>),
      claimChainSwap =
        (\<lambda>h swap p ours theirs. Inr \<lparr>pubNonce = [0x1A], partialSignature = [0x1B]\<rparr>),
      claimBTC = (\<lambda>h hex. Inr ())\<rparr>"

definition demoEntity :: WithdrawChainSwapTransaction where
  "demoEntity =
     \<lparr>entityId = 1, swapId = ''swap1'', userAddress = ''bcrt1q'',
      claimPublicKey = [0x02, 0x0E], claimSwapTree = ''claimTree'', claimBlindingKey = [],
      lockupPublicKey = [0x02, 0x0F], lockupSwapTree = ''lockupTree'',
      preimage = replicate 32 0, minerFees = 500, boltzFee = Num 64, feeRate = 2\<rparr>"

definition update :: "string \<Rightarrow> string \<Rightarrow> string option \<Rightarrow> message" where
  "update swap st hex =
     \<lparr>event = Some ''update'',
      args = Some [Some \<lparr>argId = swap, argStatus = st,
                         argTransaction = Some \<lparr>txId = Some ''txid'', txHex = hex\<rparr>\<rparr>]\<rparr>"

definition initialWorld :: world where
  "initialWorld = \<lparr>status = CREATED, draws = 0, sessions = 0, trace = []\<rparr>"

section \<open>Predicates on traces\<close>

text \<open>
  What the steps before the broadcast may add to the trace: calls on MuSig sessions and the
  two REST calls of the signature exchange. No broadcast, no status write and no
  subscription is among them.
\<close>

definition exchangeEffect :: "effect \<Rightarrow> bool" where
  "exchangeEffect x =
     (case x of
        MusigCall _ _ _ \<Rightarrow> True
      | GetClaimDetails _ _ \<Rightarrow> True
      | ClaimChainSwap _ _ _ _ \<Rightarrow> True
      | _ \<Rightarrow> False)"

text \<open>
  The effects \<open>es\<close> end with the broadcast of the co-signed transaction \<open>t\<close>: session
  \<open>s\<close> has accepted a partial signature for the key \<open>k\<close> of the other party, then has
  signed itself, then has aggregated the two, all three calls returning; the transaction
  broadcast right after is \<open>t\<close> with the aggregate as the only witness element of its
  first input; and nothing was broadcast before.
\<close>

definition claimBroadcast :: "nat \<Rightarrow> bytes \<Rightarrow> tx \<Rightarrow> effect list \<Rightarrow> bool" where
  "claimBroadcast s k t es \<longleftrightarrow>
     (\<exists>before p r3 r4 agg i rest.
        es = before @
          [MusigCall s (AddPartial k p) (Inr r3),
           MusigCall s SignPartial (Inr r4),
           MusigCall s AggregatePartials (Inr agg),
           ClaimBTC (t\<lparr>ins := i\<lparr>witness := [agg]\<rparr> # rest\<rparr>)] \<and>
        ins t = i # rest \<and> list_all exchangeEffect before)"

text \<open>An action that leaves the status alone and adds only effects of the exchange.\<close>

definition calm :: "'a action \<Rightarrow> bool" where
  "calm m \<longleftrightarrow>
     (\<forall>w. status (snd (m w)) = status w \<and>
          (\<exists>es. trace (snd (m w)) = trace w @ es \<and> list_all exchangeEffect es))"

text \<open>
  An action that leaves the status alone and adds effects of the exchange, with at most one
  broadcast, at the end, of the transaction \<open>t\<close> co-signed on session \<open>s\<close> with the
  party of key \<open>k\<close>.
\<close>

definition claims :: "nat \<Rightarrow> bytes \<Rightarrow> tx \<Rightarrow> 'a action \<Rightarrow> bool" where
  "claims s k t m \<longleftrightarrow>
     (\<forall>w. status (snd (m w)) = status w \<and>
          (\<exists>es. trace (snd (m w)) = trace w @ es \<and>
                (list_all exchangeEffect es \<or> claimBroadcast s k t es)))"
section \<open>Reading a trace\<close>

text \<open>
  The six operations of a signing session, by the names the spec gives them; the
  constructor and the accessor \<open>getPublicNonce\<close> are not among them. \<open>sessionSteps s es\<close>
  lists, in order, the operations that the effects \<open>es\<close> invoke on session \<open>s\<close>.
\<close>

definition protocolStep :: "musig_op \<Rightarrow> string option" where
  "protocolStep op =
     (case op of
        Construct _ _ \<Rightarrow> None
      | TweakMusig _ _ \<Rightarrow> Some ''tweak''
      | GetPublicNonce \<Rightarrow> None
      | AggregateNonces _ \<Rightarrow> Some ''aggregateNonces''
      | InitializeSession _ \<Rightarrow> Some ''initializeSession''
      | SignPartial \<Rightarrow> Some ''signPartial''
      | AddPartial _ _ \<Rightarrow> Some ''addPartial''
      | AggregatePartials \<Rightarrow> Some ''aggregatePartials'')"

definition sessionSteps :: "nat \<Rightarrow> effect list \<Rightarrow> string list" where
  "sessionSteps s es =
     List.map_filter
       (\<lambda>x. case x of MusigCall s' op _ \<Rightarrow> if s' = s then protocolStep op else None
                     | _ \<Rightarrow> None) es"

definition isUnsubscribe :: "effect \<Rightarrow> bool" where
  "isUnsubscribe x = (case x of Unsubscribe _ _ \<Rightarrow> True | _ \<Rightarrow> False)"

section \<open>Variations of the scenario\<close>

text \<open>The five events of the lifecycle, in their canonical order, for the tracked swap.\<close>

definition canonicalMessages :: "message list" where
  "canonicalMessages =
     [update ''swap1'' ''swap.created'' None,
      update ''swap1'' ''transaction.lockup'' None,
      update ''swap1'' ''transaction.server.mempool'' (Some ''lockup''),
      update ''swap1'' ''transaction.server.confirmed'' (Some ''lockup''),
      update ''swap1'' ''transaction.claimed'' None]"

text \<open>The same surroundings, but the service rejects the broadcast.\<close>

definition rejectingEnv :: env where
  "rejectingEnv = demoEnv\<lparr>claimBTC := (\<lambda>h hex. Inl (ServiceError ''rejected''))\<rparr>"

text \<open>The same surroundings, but the lockup transaction pays nothing to the tweaked key.\<close>

definition decoysOnlyTx :: tx where
  "decoysOnlyTx =
     \<lparr>ins = [\<lparr>prevHash = [0x01], prevIndex = 0, witness = [[0x30]]\<rparr>],
      outs = [\<lparr>outValue = 70000, outScript = [0x00, 0x14] @ replicate 20 0x11\<rparr>,
              \<lparr>outValue = 1234, outScript = [0x51, 0x20] @ replicate 32 0xCD\<rparr>]\<rparr>"

definition decoysOnlyEnv :: env where
  "decoysOnlyEnv = demoEnv\<lparr>transactionFromHex := (\<lambda>hex. Inr decoysOnlyTx)\<rparr>"

text \<open>
  What the scenario computes: the detected output, the claim transaction at the fee of 222
  sats (2 sat/vbyte on 111 vbytes), and the effects of one claim attempt that starts at random
  draw \<open>k\<close> and session \<open>s\<close>.
\<close>

definition demoOutput :: swap_output where
  "demoOutput = \<lparr>vout = 1, swapValue = 25200, swapScript = [0x51, 0x20] @ demoKey\<rparr>"

definition demoClaimTx :: tx where
  "demoClaimTx =
     \<lparr>ins = [\<lparr>prevHash = [0x99], prevIndex = 1, witness = []\<rparr>],
      outs = [\<lparr>outValue = 24978, outScript = [0x00, 0x14, 0x22]\<rparr>]\<rparr>"

definition demoDetails :: "nat \<Rightarrow> claim_transaction_details" where
  "demoDetails s =
     \<lparr>musig = s, transaction = demoClaimTx, swapOutput = demoOutput,
      boltzPublicKey = [0x02, 0x0E]\<rparr>"

definition demoSignature :: partial_signature where
  "demoSignature = \<lparr>pubNonce = [0x1A], partialSignature = [0x1B]\<rparr>"

text \<open>The 32 bytes that the \<open>k\<close>-th call of \<open>randomBytes\<close> returns.\<close>

definition drawn :: "env \<Rightarrow> nat \<Rightarrow> bytes" where
  "drawn E k = map (rnd E k) [0..<32]"

definition createEffects :: "nat \<Rightarrow> nat \<Rightarrow> effect list" where
  "createEffects k s =
     [MusigCall s (Construct (drawn demoEnv k) [[0x02, 0x0E], [0x02, 0x01]]) (Inr []),
      MusigCall s (TweakMusig BTC [0x07]) (Inr demoKey)]"

definition exchangeEffects :: "nat \<Rightarrow> nat \<Rightarrow> bytes \<Rightarrow> effect list" where
  "exchangeEffects k s nonce =
     [GetClaimDetails BTC ''swap1'',
      MusigCall s (Construct (drawn demoEnv k) [[0x02, 0x0F], [0x02, 0x01]]) (Inr []),
      MusigCall s (TweakMusig Liquid [0x07]) (Inr demoKey),
      MusigCall s (AggregateNonces [([0x02, 0x0F], [0x0D])]) (Inr []),
      MusigCall s (InitializeSession [0x0E]) (Inr []),
      MusigCall s SignPartial (Inr [0x0B, of_nat s]),
      MusigCall s GetPublicNonce (Inr [0x0A, of_nat s]),
      ClaimChainSwap ''swap1'' (replicate 32 0) ([0x0B, of_nat s], [0x0A, of_nat s])
        (0, ''unsigned'', nonce)]"

definition claimEffects :: "nat \<Rightarrow> effect list" where
  "claimEffects s =
     [MusigCall s (AggregateNonces [([0x02, 0x0E], [0x1A])]) (Inr []),
      MusigCall s (InitializeSession [0x51]) (Inr []),
      MusigCall s (AddPartial [0x02, 0x0E] [0x1B]) (Inr []),
      MusigCall s SignPartial (Inr [0x0B, of_nat s]),
      MusigCall s AggregatePartials (Inr [0x0C, of_nat s]),
      ClaimBTC (demoClaimTx\<lparr>ins := [\<lparr>prevHash = [0x99], prevIndex = 1,
                                       witness = [[0x0C, of_nat s]]\<rparr>]\<rparr>)]"

definition attemptEffects :: "nat \<Rightarrow> nat \<Rightarrow> effect list" where
  "attemptEffects k s =
     createEffects k s @ [MusigCall s GetPublicNonce (Inr [0x0A, of_nat s])] @
     exchangeEffects (Suc k) (Suc s) [0x0A, of_nat s] @ claimEffects s"

section \<open>Nonce seeds\<close>

text \<open>
  The seeds that the sessions of a trace were constructed with, in order. \<open>freshSeeds\<close>
  relates two states when the sessions constructed between them are seeded, in order, by
  the random draws made between them, one draw for each session and one session for each
  draw; \<open>freshly\<close> says that an action only makes such steps.
\<close>

definition seedsOf :: "effect list \<Rightarrow> bytes list" where
  "seedsOf es =
     List.map_filter
       (\<lambda>x. case x of MusigCall _ (Construct seed _) _ \<Rightarrow> Some seed | _ \<Rightarrow> None) es"

definition freshSeeds :: "env \<Rightarrow> world \<Rightarrow> world \<Rightarrow> bool" where
  "freshSeeds E w w' \<longleftrightarrow>
     draws w \<le> draws w' \<and>
     seedsOf (trace w') = seedsOf (trace w) @ map (drawn E) [draws w..<draws w']"

definition freshly :: "env \<Rightarrow> 'a action \<Rightarrow> bool" where
  "freshly E m \<longleftrightarrow> (\<forall>w. freshSeeds E w (snd (m w)))"

text \<open>An action that, whenever it throws, has done no more than \<open>claims\<close> allows.\<close>

definition claimsOnFailure :: "nat \<Rightarrow> bytes \<Rightarrow> tx \<Rightarrow> 'a action \<Rightarrow> bool" where
  "claimsOnFailure s k t m \<longleftrightarrow>
     (\<forall>w e w'. m w = (Inl e, w') \<longrightarrow>
        status w' = status w \<and>
        (\<exists>es. trace w' = trace w @ es \<and>
              (list_all exchangeEffect es \<or> claimBroadcast s k t es)))"
section \<open>Sequencing lemmas\<close>

lemma claimBroadcast_append:
  "list_all exchangeEffect es \<Longrightarrow> claimBroadcast s k t es' \<Longrightarrow> claimBroadcast s k t (es @ es')"
  unfolding claimBroadcast_def
  apply clarify
  subgoal for before p r3 r4 agg i rest
    by (rule exI[of _ "es @ before"]) auto
  done

lemma calm_ret: "calm (ret x)"
  by (simp add: calm_def ret_def)

lemma calm_throw: "calm (throw e)"
  by (simp add: calm_def throw_def)

lemma calm_lift: "calm (lift r)"
  by (simp add: calm_def lift_def)

lemma calmD:
  assumes "calm m" and "m w = (r, w')"
  shows "status w' = status w \<and> (\<exists>es. trace w' = trace w @ es \<and> list_all exchangeEffect es)"
  using assms unfolding calm_def by (metis snd_conv)

lemma claimsD:
  assumes "claims s k t m" and "m w = (r, w')"
  shows "status w' = status w \<and>
         (\<exists>es. trace w' = trace w @ es \<and> (list_all exchangeEffect es \<or> claimBroadcast s k t es))"
  using assms unfolding claims_def by (metis snd_conv)

lemma calm_andThen:
  assumes m: "calm m" and f: "\<And>x. calm (f x)"
  shows "calm (andThen m f)"
  unfolding calm_def
proof (intro allI)
  fix w
  obtain r w' where mw: "m w = (r, w')" by (cases "m w")
  from calmD[OF m mw] obtain es where 1: "status w' = status w" "trace w' = trace w @ es"
      "list_all exchangeEffect es" by blast
  show "status (snd (andThen m f w)) = status w \<and>
        (\<exists>es. trace (snd (andThen m f w)) = trace w @ es \<and> list_all exchangeEffect es)"
  proof (cases r)
    case (Inl e)
    then show ?thesis using mw 1 by (simp add: andThen_def)
  next
    case (Inr x)
    from f[of x] obtain es' where 2: "status (snd (f x w')) = status w'"
        "trace (snd (f x w')) = trace w' @ es'" "list_all exchangeEffect es'"
      unfolding calm_def by blast
    have "trace (snd (f x w')) = trace w @ (es @ es')" using 1 2 by simp
    moreover have "list_all exchangeEffect (es @ es')" using 1 2 by simp
    ultimately show ?thesis using Inr mw 1 2 by (auto simp: andThen_def)
  qed
qed

lemma calm_musigCall: "calm (musigCall E s op)"
  by (simp add: calm_def musigCall_def Let_def exchangeEffect_def)

lemma calm_newMusig: "calm (newMusig E keys)"
  unfolding calm_def newMusig_def
  by (simp add: andThen_def randomBytes_def musigCall_def Let_def ret_def exchangeEffect_def
      split: sum.splits)

lemma calm_called: "exchangeEffect x \<Longrightarrow> calm (called x f)"
  by (simp add: calm_def called_def)

lemma calm_case_option:
  "calm a \<Longrightarrow> (\<And>y. calm (b y)) \<Longrightarrow> calm (case x of None \<Rightarrow> a | Some y \<Rightarrow> b y)"
  by (cases x) simp_all

lemmas calm_intros =
  calm_andThen calm_ret calm_throw calm_lift calm_musigCall calm_newMusig calm_case_option

lemma calm_createClaimTransaction: "calm (createClaimTransaction E p ent hex)"
  unfolding createClaimTransaction_def
  by (intro calm_intros)

lemma calm_createClaimTransaction_liquid: "calm (createClaimTransaction_liquid E p ent hex)"
  unfolding createClaimTransaction_liquid_def
  by (intro calm_intros)

lemma calm_getBoltzPartialSignature: "calm (getBoltzPartialSignature E ch p ent n t)"
  unfolding getBoltzPartialSignature_def
  by (intro calm_intros calm_called) (simp_all add: exchangeEffect_def)

lemma claims_calm: "calm m \<Longrightarrow> claims s k t m"
  unfolding calm_def claims_def by blast

lemma claims_andThen:
  assumes m: "calm m" and f: "\<And>x. claims s k t (f x)"
  shows "claims s k t (andThen m f)"
  unfolding claims_def
proof (intro allI)
  fix w
  obtain r w' where mw: "m w = (r, w')" by (cases "m w")
  from calmD[OF m mw] obtain es where 1: "status w' = status w" "trace w' = trace w @ es"
      "list_all exchangeEffect es" by blast
  show "status (snd (andThen m f w)) = status w \<and>
        (\<exists>es. trace (snd (andThen m f w)) = trace w @ es \<and>
              (list_all exchangeEffect es \<or> claimBroadcast s k t es))"
  proof (cases r)
    case (Inl e)
    then show ?thesis using mw 1 by (auto simp: andThen_def)
  next
    case (Inr x)
    from f[of x] obtain es' where 2: "status (snd (f x w')) = status w'"
        "trace (snd (f x w')) = trace w' @ es'"
        "list_all exchangeEffect es' \<or> claimBroadcast s k t es'"
      unfolding claims_def by blast
    have "trace (snd (f x w')) = trace w @ (es @ es')" using 1 2 by simp
    moreover have "list_all exchangeEffect (es @ es') \<or> claimBroadcast s k t (es @ es')"
      using 1(3) 2(3) claimBroadcast_append[of es s k t es'] by auto
    ultimately show ?thesis using Inr mw 1 2 by (auto simp: andThen_def)
  qed
qed

lemma claims_broadcast:
  "claims s k t
     (andThen (musigCall E s (AddPartial k p)) (\<lambda>_.
      andThen (musigCall E s SignPartial) (\<lambda>_.
      andThen (musigCall E s AggregatePartials) (\<lambda>aggregated.
      andThen (setWitness t [aggregated]) (\<lambda>finalized.
      called (ClaimBTC finalized) (g finalized))))))"
  unfolding claims_def
proof (intro allI)
  fix w
  let ?m = "andThen (musigCall E s (AddPartial k p)) (\<lambda>_.
      andThen (musigCall E s SignPartial) (\<lambda>_.
      andThen (musigCall E s AggregatePartials) (\<lambda>aggregated.
      andThen (setWitness t [aggregated]) (\<lambda>finalized.
      called (ClaimBTC finalized) (g finalized)))))"
  show "status (snd (?m w)) = status w \<and>
        (\<exists>es. trace (snd (?m w)) = trace w @ es \<and>
              (list_all exchangeEffect es \<or> claimBroadcast s k t es))"
    by (cases "ins t")
      (auto simp: andThen_def musigCall_def Let_def setWitness_def throw_def ret_def called_def
          exchangeEffect_def claimBroadcast_def split: sum.splits)
qed

lemma claims_performChainSwapClaim:
  "claims (musig d) (boltzPublicKey d) (transaction d) (performChainSwapClaim E ch d ent sig)"
  unfolding performChainSwapClaim_def
  by (intro claims_andThen calm_musigCall calm_lift claims_broadcast)

section \<open>The callback on a tracked message\<close>

lemma dispatch_failed:
  assumes "event msg = Some ''update''" and "args msg = Some (Some a # rest)"
    and "argId a = swapId ent" and "sw a w = (Inl e, w')"
  shows "dispatch sw ent msg w =
           (Inr (), w'\<lparr>status := CLAIM_FAILED,
                       trace := trace w' @ [StatusUpdate CLAIM_FAILED None,
                                            Unsubscribe ''swap.update'' [swapId ent]]\<rparr>)"
  using assms
  by (simp add: dispatch_def catch_def failAndUnsubscribe_def andThen_def
      updateChainSwapStatus_def unsubscribe_def emit_def)

lemma dispatch_returned:
  assumes "event msg = Some ''update''" and "args msg = Some (Some a # rest)"
    and "argId a = swapId ent" and "sw a w = (Inr x, w')"
  shows "dispatch sw ent msg w = (Inr x, w')"
  using assms by (simp add: dispatch_def catch_def)

lemma broadcast_failed:
  assumes "broadcastCoSignedClaimTransaction_try E ent hex w = (Inl e, w')"
  shows "broadcastCoSignedClaimTransaction E ent hex w =
           (Inl e, w'\<lparr>status := CLAIM_FAILED,
                       trace := trace w' @ [StatusUpdate CLAIM_FAILED None]\<rparr>)"
  using assms
  by (simp add: broadcastCoSignedClaimTransaction_def catch_def andThen_def
      updateChainSwapStatus_def throw_def)
section \<open>What a returning call has done\<close>

text \<open>
  When a step of the pipeline returns, every call inside it has returned, and the state after
  it is the state before plus the effects of these calls, in order.
\<close>

lemma musigCall_Inr:
  "musigCall E s op w = (Inr x, w') \<Longrightarrow>
     w' = w\<lparr>trace := trace w @ [MusigCall s op (Inr x)]\<rparr>"
  by (auto simp: musigCall_def Let_def)

lemma andThen_Inr:
  "andThen m f w = (Inr y, w'') \<Longrightarrow> \<exists>x w'. m w = (Inr x, w') \<and> f x w' = (Inr y, w'')"
  by (auto simp: andThen_def split: prod.splits sum.splits)

lemma newMusig_Inr:
  assumes "newMusig E keys w = (Inr s, w')"
  shows "s = sessions w \<and> status w' = status w \<and> draws w' = Suc (draws w) \<and>
         sessions w' = Suc (sessions w) \<and>
         (\<exists>r. trace w' = trace w @
                  [MusigCall (sessions w)
                     (Construct (map (rnd E (draws w)) [0..<32]) keys) (Inr r)])"
  using assms unfolding newMusig_def
  by (auto dest!: andThen_Inr musigCall_Inr simp: randomBytes_def ret_def Let_def)

lemma performChainSwapClaim_returns:
  assumes "performChainSwapClaim E ch d ent sig w = (Inr u, w')"
  shows "status w' = status w \<and> draws w' = draws w \<and> sessions w' = sessions w \<and>
         (\<exists>r1 h r2 r3 r4 agg i rest.
           ins (transaction d) = i # rest \<and>
           trace w' = trace w @
             [MusigCall (musig d) (AggregateNonces [(boltzPublicKey d, pubNonce sig)]) (Inr r1),
              MusigCall (musig d) (InitializeSession h) (Inr r2),
              MusigCall (musig d) (AddPartial (boltzPublicKey d) (partialSignature sig)) (Inr r3),
              MusigCall (musig d) SignPartial (Inr r4),
              MusigCall (musig d) AggregatePartials (Inr agg),
              ClaimBTC ((transaction d)\<lparr>ins := i\<lparr>witness := [agg]\<rparr> # rest\<rparr>)])"
  using assms unfolding performChainSwapClaim_def
  by (auto dest!: andThen_Inr musigCall_Inr
      simp: lift_def setWitness_def called_def ret_def throw_def split: list.splits)

lemma createClaimTransaction_returns:
  assumes "createClaimTransaction E p ent hex w = (Inr d, w')"
  shows "musig d = sessions w \<and> boltzPublicKey d = claimPublicKey ent \<and>
         status w' = status w \<and> draws w' = Suc (draws w) \<and>
         sessions w' = Suc (sessions w) \<and>
         (\<exists>r tree key.
            trace w' = trace w @
              [MusigCall (sessions w)
                 (Construct (map (rnd E (draws w)) [0..<32])
                    [claimPublicKey ent, publicKey E]) (Inr r),
               MusigCall (sessions w) (TweakMusig BTC tree) (Inr key)])"
  using assms unfolding createClaimTransaction_def
  by (auto dest!: andThen_Inr musigCall_Inr newMusig_Inr
      simp: lift_def ret_def throw_def split: option.splits)

lemma getBoltzPartialSignature_returns:
  assumes "getBoltzPartialSignature E ch p ent n t w = (Inr sig, w')"
  shows "status w' = status w \<and> draws w' = Suc (draws w) \<and>
         sessions w' = Suc (sessions w) \<and>
         (\<exists>r0 tree r1 r2 r3 sn th r4 r5.
           trace w' = trace w @
             [GetClaimDetails ch (swapId ent),
              MusigCall (sessions w)
                (Construct (map (rnd E (draws w)) [0..<32])
                   [lockupPublicKey ent, publicKey E]) (Inr r0),
              MusigCall (sessions w) (TweakMusig Liquid tree) (Inr r1),
              MusigCall (sessions w)
                (AggregateNonces [(lockupPublicKey ent, sn)]) (Inr r2),
              MusigCall (sessions w) (InitializeSession th) (Inr r3),
              MusigCall (sessions w) SignPartial (Inr r4),
              MusigCall (sessions w) GetPublicNonce (Inr r5),
              ClaimChainSwap (swapId ent) p (r4, r5) (0, toHex E t, n)])"
  using assms unfolding getBoltzPartialSignature_def
  by (auto dest!: andThen_Inr musigCall_Inr newMusig_Inr
      simp: lift_def ret_def throw_def called_def)

lemma try_returns:
  assumes "broadcastCoSignedClaimTransaction_try E ent hex w = (Inr u, w')"
  shows "\<exists>es. trace w' = trace w @ es \<and>
           sessionSteps (sessions w) es =
             [''tweak'', ''aggregateNonces'', ''initializeSession'', ''addPartial'',
              ''signPartial'', ''aggregatePartials''] \<and>
           sessionSteps (Suc (sessions w)) es =
             [''tweak'', ''aggregateNonces'', ''initializeSession'', ''signPartial'']"
proof -
  from assms obtain d w1 nonce w2 sig w3 where
    c: "createClaimTransaction E (preimage ent) ent hex w = (Inr d, w1)" and
    n: "musigCall E (musig d) GetPublicNonce w1 = (Inr nonce, w2)" and
    g: "getBoltzPartialSignature E BTC (preimage ent) ent nonce (transaction d) w2 = (Inr sig, w3)" and
    p: "performChainSwapClaim E BTC d ent sig w3 = (Inr u, w')"
    unfolding broadcastCoSignedClaimTransaction_try_def
    by (auto dest!: andThen_Inr)
  from createClaimTransaction_returns[OF c] obtain r tree key where
    c1: "musig d = sessions w" "sessions w1 = Suc (sessions w)" and
    c2: "trace w1 = trace w @
              [MusigCall (sessions w)
                 (Construct (map (rnd E (draws w)) [0..<32])
                    [claimPublicKey ent, publicKey E]) (Inr r),
               MusigCall (sessions w) (TweakMusig BTC tree) (Inr key)]"
    by blast
  have n1: "sessions w2 = sessions w1" "trace w2 = trace w1 @ [MusigCall (musig d) GetPublicNonce (Inr nonce)]"
    using musigCall_Inr[OF n] by simp_all
  from getBoltzPartialSignature_returns[OF g] obtain r0 tree2 r1 r2 r3 sn th r4 r5 where
    g2: "trace w3 = trace w2 @
             [GetClaimDetails BTC (swapId ent),
              MusigCall (sessions w2)
                (Construct (map (rnd E (draws w2)) [0..<32])
                   [lockupPublicKey ent, publicKey E]) (Inr r0),
              MusigCall (sessions w2) (TweakMusig Liquid tree2) (Inr r1),
              MusigCall (sessions w2)
                (AggregateNonces [(lockupPublicKey ent, sn)]) (Inr r2),
              MusigCall (sessions w2) (InitializeSession th) (Inr r3),
              MusigCall (sessions w2) SignPartial (Inr r4),
              MusigCall (sessions w2) GetPublicNonce (Inr r5),
              ClaimChainSwap (swapId ent) (preimage ent) (r4, r5) (0, toHex E (transaction d), nonce)]"
    by blast
  from performChainSwapClaim_returns[OF p] obtain q1 h q2 q3 q4 agg i rest where
    p2: "trace w' = trace w3 @
             [MusigCall (musig d) (AggregateNonces [(boltzPublicKey d, pubNonce sig)]) (Inr q1),
              MusigCall (musig d) (InitializeSession h) (Inr q2),
              MusigCall (musig d) (AddPartial (boltzPublicKey d) (partialSignature sig)) (Inr q3),
              MusigCall (musig d) SignPartial (Inr q4),
              MusigCall (musig d) AggregatePartials (Inr agg),
              ClaimBTC ((transaction d)\<lparr>ins := i\<lparr>witness := [agg]\<rparr> # rest\<rparr>)]"
    by blast
  show ?thesis
    unfolding p2 g2 n1 c2 c1
    by (simp add: sessionSteps_def protocolStep_def List.map_filter_def)
qed

section \<open>What a claim attempt adds to the trace\<close>

text \<open>
  Whatever its outcome, an attempt adds effects of the exchange and at most one broadcast,
  which then comes last and is of the claim transaction that \<open>createClaimTransaction\<close>
  returned, co-signed on the session constructed there.
\<close>

lemma createClaimTransaction_liquid_returns:
  assumes "createClaimTransaction_liquid E p ent hex w = (Inr d, w')"
  shows "musig d = sessions w \<and> boltzPublicKey d = claimPublicKey ent"
  using assms unfolding createClaimTransaction_liquid_def
  by (auto dest!: andThen_Inr musigCall_Inr newMusig_Inr
      simp: lift_def ret_def throw_def split: option.splits)

lemma try_claims:
  assumes "broadcastCoSignedClaimTransaction_try E ent hex w = (r, w')"
  shows "status w' = status w \<and>
         (\<exists>es. trace w' = trace w @ es \<and>
            (list_all exchangeEffect es \<or>
             (\<exists>d w1. createClaimTransaction E (preimage ent) ent hex w = (Inr d, w1) \<and>
                     claimBroadcast (sessions w) (claimPublicKey ent) (transaction d) es)))"
proof -
  obtain rc w1 where c: "createClaimTransaction E (preimage ent) ent hex w = (rc, w1)"
    by (cases "createClaimTransaction E (preimage ent) ent hex w")
  from calmD[OF calm_createClaimTransaction c] obtain es1 where
    1: "status w1 = status w" "trace w1 = trace w @ es1" "list_all exchangeEffect es1"
    by blast
  show ?thesis
  proof (cases rc)
    case (Inl e)
    then have "w' = w1"
      using assms c by (simp add: broadcastCoSignedClaimTransaction_try_def andThen_def)
    then show ?thesis using 1 by blast
  next
    case (Inr d)
    let ?rest = "andThen (musigCall E (musig d) GetPublicNonce) (\<lambda>nonce.
       andThen (getBoltzPartialSignature E BTC (preimage ent) ent nonce (transaction d))
         (\<lambda>boltzPartialSignature.
       performChainSwapClaim E BTC d ent boltzPartialSignature))"
    have r: "?rest w1 = (r, w')"
      using assms c Inr by (simp add: broadcastCoSignedClaimTransaction_try_def andThen_def)
    have "claims (musig d) (boltzPublicKey d) (transaction d) ?rest"
      by (intro claims_andThen calm_musigCall calm_getBoltzPartialSignature
          claims_performChainSwapClaim)
    from claimsD[OF this r] obtain es2 where
      2: "status w' = status w1" "trace w' = trace w1 @ es2"
         "list_all exchangeEffect es2 \<or> claimBroadcast (musig d) (boltzPublicKey d) (transaction d) es2"
      by blast
    have m: "musig d = sessions w" "boltzPublicKey d = claimPublicKey ent"
      using createClaimTransaction_returns[OF c[unfolded Inr]] by simp_all
    have "trace w' = trace w @ (es1 @ es2)" using 1 2 by simp
    moreover have "list_all exchangeEffect (es1 @ es2) \<or>
        claimBroadcast (sessions w) (claimPublicKey ent) (transaction d) (es1 @ es2)"
      using 1(3) 2(3) claimBroadcast_append[of es1 "musig d" "boltzPublicKey d" "transaction d" es2] m by auto
    ultimately show ?thesis using 1 2 c Inr by metis
  qed
qed

lemma confirmed_failure:
  assumes msg: "event msg = Some ''update''" "args msg = Some (Some a # rest)"
      "argId a = swapId ent"
    and st: "argStatus a = ''transaction.server.confirmed''"
    and t: "broadcastCoSignedClaimTransaction_try E ent (transactionHex a) w = (Inl e, w')"
  shows "onMessage E ent msg w =
      (Inr (), w'\<lparr>status := CLAIM_FAILED,
                  trace := trace w' @ [StatusUpdate CLAIM_FAILED None, StatusUpdate CLAIM_FAILED None,
                                       Unsubscribe ''swap.update'' [swapId ent]]\<rparr>)"
proof -
  have sw: "statusSwitch E ent a w =
      (Inl e, w'\<lparr>status := CLAIM_FAILED, trace := trace w' @ [StatusUpdate CLAIM_FAILED None]\<rparr>)"
    using st broadcast_failed[OF t] by (simp add: statusSwitch_def)
  show ?thesis
    unfolding onMessage_def
    using dispatch_failed[of msg a rest ent "statusSwitch E ent", OF msg sw] by simp
qed

lemma confirmed_failure_claims:
  assumes msg: "event msg = Some ''update''" "args msg = Some (Some a # rest)"
      "argId a = swapId ent"
    and st: "argStatus a = ''transaction.server.confirmed''"
    and fails: "fst (broadcastCoSignedClaimTransaction_try E ent (transactionHex a) w) = Inl e"
  shows "fst (onMessage E ent msg w) = Inr () \<and>
         status (snd (onMessage E ent msg w)) = CLAIM_FAILED \<and>
         (\<exists>es. trace (snd (onMessage E ent msg w)) =
                 trace w @ es @ [StatusUpdate CLAIM_FAILED None, StatusUpdate CLAIM_FAILED None,
                                 Unsubscribe ''swap.update'' [swapId ent]] \<and>
               (list_all exchangeEffect es \<or>
                (\<exists>d w1. createClaimTransaction E (preimage ent) ent (transactionHex a) w =
                          (Inr d, w1) \<and>
                        claimBroadcast (sessions w) (claimPublicKey ent) (transaction d) es)))"
proof -
  obtain w' where
    t: "broadcastCoSignedClaimTransaction_try E ent (transactionHex a) w = (Inl e, w')"
    using fails by (cases "broadcastCoSignedClaimTransaction_try E ent (transactionHex a) w") simp
  from try_claims[OF t] obtain es where
    es: "trace w' = trace w @ es"
        "list_all exchangeEffect es \<or>
         (\<exists>d w1. createClaimTransaction E (preimage ent) ent (transactionHex a) w = (Inr d, w1) \<and>
                 claimBroadcast (sessions w) (claimPublicKey ent) (transaction d) es)"
    by blast
  show ?thesis
    unfolding confirmed_failure[OF msg st t] using es by simp
qed
section \<open>The scenario, evaluated\<close>

text \<open>
  The fields of the scenario, and the pipeline run in it from an arbitrary state.
\<close>

lemma demoEnv_fields:
  "publicKey demoEnv = [0x02, 0x01]"
  "rnd demoEnv = (\<lambda>k i. of_nat k)"
  "musigLib demoEnv = demoMusig"
  "deserializeSwapTree demoEnv = (\<lambda>json. Inr [0x07])"
  "transactionFromHex demoEnv = (\<lambda>hex. if hex = ''lockup'' then Inr demoLockupTx
                                  else Inl (LibraryError ''not a transaction''))"
  "detectSwap demoEnv = detectSwap_spec"
  "toOutputScript demoEnv = (\<lambda>ch addr. Inr [0x00, 0x14, 0x22])"
  "constructClaimTransaction demoEnv = constructClaimTransaction_spec"
  "targetFee demoEnv = targetFee_spec (\<lambda>t. 111)"
  "getHash demoEnv = (\<lambda>t. [0x99])"
  "hashForWitnessV1 demoEnv = (\<lambda>ch t i scripts values. Inr [0x51])"
  "toHex demoEnv = (\<lambda>t. if \<exists>i \<in> set (ins t). witness i \<noteq> [] then ''signed'' else ''unsigned'')"
  "getClaimDetails demoEnv = (\<lambda>h ch swap. Inr \<lparr>serverPubNonce = [0x0D], transactionHash = [0x0E]\<rparr>)"
  "claimChainSwap demoEnv = (\<lambda>h swap p ours theirs. Inr \<lparr>pubNonce = [0x1A], partialSignature = [0x1B]\<rparr>)"
  "claimBTC demoEnv = (\<lambda>h hex. Inr ())"
  "sha256 demoEnv = (\<lambda>b. 0x5A # b)"
  "ceilQuotient demoEnv = (\<lambda>x p. if p = 100
                            then (if 0 < x then PosInfinity else if x < 0 then NegInfinity else NaN)
                            else Num \<lceil>of_int x / (1 - p / 100)\<rceil>)"
  "fromConfidential demoEnv = (\<lambda>addr. Inr [0x03])"
  "getNetworkFee demoEnv = (\<lambda>h asset. Inr 2)"
  "getChainSwapFee demoEnv =
     (\<lambda>h. Inr \<lparr>percentage = 1 / 4, minerFeeServer = 300, minerFeeUserClaim = 200\<rparr>)"
  "createChainSwap demoEnv = (\<lambda>h dto. Inr (Some
        \<lparr>responseId = ''swap1'',
         dtoLockupDetails = \<lparr>serverPublicKey = [0x02, 0x0F], swapTree = ''lockupTree'',
                              blindingKey = [0x04]\<rparr>,
         dtoClaimDetails = \<lparr>serverPublicKey = [0x02, 0x0E], swapTree = ''claimTree'',
                             blindingKey = []\<rparr>\<rparr>))"
  by (simp_all add: demoEnv_def)

lemma rejectingEnv_fields:
  "publicKey rejectingEnv = publicKey demoEnv"
  "rnd rejectingEnv = rnd demoEnv"
  "musigLib rejectingEnv = musigLib demoEnv"
  "deserializeSwapTree rejectingEnv = deserializeSwapTree demoEnv"
  "transactionFromHex rejectingEnv = transactionFromHex demoEnv"
  "detectSwap rejectingEnv = detectSwap demoEnv"
  "toOutputScript rejectingEnv = toOutputScript demoEnv"
  "constructClaimTransaction rejectingEnv = constructClaimTransaction demoEnv"
  "targetFee rejectingEnv = targetFee demoEnv"
  "getHash rejectingEnv = getHash demoEnv"
  "hashForWitnessV1 rejectingEnv = hashForWitnessV1 demoEnv"
  "toHex rejectingEnv = toHex demoEnv"
  "getClaimDetails rejectingEnv = getClaimDetails demoEnv"
  "claimChainSwap rejectingEnv = claimChainSwap demoEnv"
  "claimBTC rejectingEnv = (\<lambda>h hex. Inl (ServiceError ''rejected''))"
  by (simp_all add: rejectingEnv_def)

lemma decoysOnlyEnv_fields:
  "publicKey decoysOnlyEnv = publicKey demoEnv"
  "rnd decoysOnlyEnv = rnd demoEnv"
  "musigLib decoysOnlyEnv = musigLib demoEnv"
  "deserializeSwapTree decoysOnlyEnv = deserializeSwapTree demoEnv"
  "transactionFromHex decoysOnlyEnv = (\<lambda>hex. Inr decoysOnlyTx)"
  "detectSwap decoysOnlyEnv = detectSwap demoEnv"
  "toOutputScript decoysOnlyEnv = toOutputScript demoEnv"
  "constructClaimTransaction decoysOnlyEnv = constructClaimTransaction demoEnv"
  "targetFee decoysOnlyEnv = targetFee demoEnv"
  "getHash decoysOnlyEnv = getHash demoEnv"
  "hashForWitnessV1 decoysOnlyEnv = hashForWitnessV1 demoEnv"
  "toHex decoysOnlyEnv = toHex demoEnv"
  "getClaimDetails decoysOnlyEnv = getClaimDetails demoEnv"
  "claimChainSwap decoysOnlyEnv = claimChainSwap demoEnv"
  "claimBTC decoysOnlyEnv = claimBTC demoEnv"
  by (simp_all add: decoysOnlyEnv_def)

lemma initialWorld_fields:
  "status initialWorld = CREATED" "draws initialWorld = 0" "sessions initialWorld = 0"
  "trace initialWorld = []"
  by (simp_all add: initialWorld_def)

lemma demoDetails_fields:
  "musig (demoDetails s) = s" "transaction (demoDetails s) = demoClaimTx"
  "swapOutput (demoDetails s) = demoOutput" "boltzPublicKey (demoDetails s) = [0x02, 0x0E]"
  by (simp_all add: demoDetails_def)

lemma demoEntity_fields:
  "entityId demoEntity = 1" "swapId demoEntity = ''swap1''" "userAddress demoEntity = ''bcrt1q''"
  "claimPublicKey demoEntity = [0x02, 0x0E]" "claimSwapTree demoEntity = ''claimTree''"
  "lockupPublicKey demoEntity = [0x02, 0x0F]" "lockupSwapTree demoEntity = ''lockupTree''"
  "preimage demoEntity = replicate 32 0" "feeRate demoEntity = 2"
  "minerFees demoEntity = 500" "boltzFee demoEntity = Num 64"
  by (simp_all add: demoEntity_def)

lemma demo_detect: "detectSwap_spec demoKey demoLockupTx = Some demoOutput"
  by (simp add: detectSwap_spec_def demoLockupTx_def isTaprootOutputFor_def demoKey_def
      demoOutput_def)

lemma decoys_detect: "detectSwap_spec demoKey decoysOnlyTx = None"
  by (simp add: detectSwap_spec_def decoysOnlyTx_def isTaprootOutputFor_def demoKey_def)

lemma demo_targetFee:
  "targetFee_spec (\<lambda>t. 111) 2
     (\<lambda>fee. constructClaimTransaction_spec BTC
        [\<lparr>utxoOutput = demoOutput, utxoPreimage = p, utxoCooperative = True,
          utxoTxHash = [0x99], utxoBlindingPrivateKey = None\<rparr>] [0x00, 0x14, 0x22] fee None)
   = Inr demoClaimTx"
  by (simp add: targetFee_spec_def eval_nat_numeral constructClaimTransaction_spec_def
      demoOutput_def demoClaimTx_def)

lemma demo_newMusig:
  "newMusig demoEnv keys w =
     (Inr (sessions w),
      w\<lparr>draws := Suc (draws w), sessions := Suc (sessions w),
        trace := trace w @ [MusigCall (sessions w) (Construct (drawn demoEnv (draws w)) keys) (Inr [])]\<rparr>)"
  "newMusig rejectingEnv keys w = newMusig demoEnv keys w"
  "newMusig decoysOnlyEnv keys w = newMusig demoEnv keys w"
  by (simp_all add: newMusig_def andThen_def randomBytes_def musigCall_def Let_def ret_def
      demoEnv_fields demoMusig_def drawn_def rejectingEnv_fields decoysOnlyEnv_fields)

lemma demo_createClaimTransaction:
  "createClaimTransaction demoEnv p demoEntity (Some ''lockup'') w =
     (Inr (demoDetails (sessions w)),
      w\<lparr>draws := Suc (draws w), sessions := Suc (sessions w),
        trace := trace w @ createEffects (draws w) (sessions w)\<rparr>)"
  "createClaimTransaction rejectingEnv p demoEntity (Some ''lockup'') w =
     createClaimTransaction demoEnv p demoEntity (Some ''lockup'') w"
  by (simp_all add: createClaimTransaction_def andThen_def demo_newMusig lift_def musigCall_def
      Let_def ret_def demoEnv_fields demoEntity_fields demoMusig_def demo_detect demo_targetFee
      demoDetails_def createEffects_def rejectingEnv_fields)

lemma decoys_createClaimTransaction:
  "createClaimTransaction decoysOnlyEnv p demoEntity (Some ''lockup'') w =
     (Inl (Error ''No swap output found in lockup transaction''),
      w\<lparr>draws := Suc (draws w), sessions := Suc (sessions w),
        trace := trace w @ createEffects (draws w) (sessions w)\<rparr>)"
  by (simp add: createClaimTransaction_def andThen_def demo_newMusig lift_def musigCall_def
      Let_def throw_def demoEnv_fields demoEntity_fields demoMusig_def decoys_detect
      createEffects_def decoysOnlyEnv_fields)

lemma demo_getBoltzPartialSignature:
  "getBoltzPartialSignature demoEnv BTC (replicate 32 0) demoEntity nonce demoClaimTx w =
     (Inr demoSignature,
      w\<lparr>draws := Suc (draws w), sessions := Suc (sessions w),
        trace := trace w @ exchangeEffects (draws w) (sessions w) nonce\<rparr>)"
  "getBoltzPartialSignature rejectingEnv BTC (replicate 32 0) demoEntity nonce demoClaimTx w =
     getBoltzPartialSignature demoEnv BTC (replicate 32 0) demoEntity nonce demoClaimTx w"
  by (simp_all add: getBoltzPartialSignature_def andThen_def demo_newMusig lift_def
      musigCall_def called_def Let_def ret_def demoEnv_fields demoEntity_fields demoMusig_def
      demoSignature_def exchangeEffects_def demoClaimTx_def rejectingEnv_fields)

lemma demo_performChainSwapClaim:
  "performChainSwapClaim demoEnv BTC (demoDetails s) demoEntity demoSignature w =
     (Inr (), w\<lparr>trace := trace w @ claimEffects s\<rparr>)"
  "performChainSwapClaim rejectingEnv BTC (demoDetails s) demoEntity demoSignature w =
     (Inl (ServiceError ''rejected''), w\<lparr>trace := trace w @ claimEffects s\<rparr>)"
  by (simp_all add: performChainSwapClaim_def andThen_def lift_def musigCall_def called_def
      setWitness_def Let_def ret_def demoEnv_fields demoMusig_def demoSignature_def
      demoDetails_def claimEffects_def demoClaimTx_def rejectingEnv_fields)

lemma demo_try:
  "broadcastCoSignedClaimTransaction_try demoEnv demoEntity (Some ''lockup'') w =
     (Inr (), w\<lparr>draws := Suc (Suc (draws w)), sessions := Suc (Suc (sessions w)),
                trace := trace w @ attemptEffects (draws w) (sessions w)\<rparr>)"
  "broadcastCoSignedClaimTransaction_try rejectingEnv demoEntity (Some ''lockup'') w =
     (Inl (ServiceError ''rejected''),
      w\<lparr>draws := Suc (Suc (draws w)), sessions := Suc (Suc (sessions w)),
        trace := trace w @ attemptEffects (draws w) (sessions w)\<rparr>)"
  by (simp_all add: broadcastCoSignedClaimTransaction_try_def andThen_def
      demo_createClaimTransaction demo_getBoltzPartialSignature demo_performChainSwapClaim
      musigCall_def Let_def demoEnv_fields demoMusig_def demoEntity_fields attemptEffects_def
      rejectingEnv_fields demoDetails_fields)

section \<open>Messages of the scenario\<close>

lemma andThen_Inl: "fst (m w) = Inl e \<Longrightarrow> fst (andThen m f w) = Inl e"
  by (cases "m w") (auto simp: andThen_def)

lemma update_fields:
  "event (update swap st hex) = Some ''update''"
  "args (update swap st hex) =
     Some [Some \<lparr>argId = swap, argStatus = st,
                  argTransaction = Some \<lparr>txId = Some ''txid'', txHex = hex\<rparr>\<rparr>]"
  by (simp_all add: update_def)

lemma onMessage_update:
  "onMessage E demoEntity (update ''swap1'' st hex) w =
     catch (statusSwitch E demoEntity
              \<lparr>argId = ''swap1'', argStatus = st,
               argTransaction = Some \<lparr>txId = Some ''txid'', txHex = hex\<rparr>\<rparr>)
       (\<lambda>e. failAndUnsubscribe demoEntity CLAIM_FAILED) w"
  by (simp add: onMessage_def dispatch_def update_def demoEntity_fields)


section \<open>Failures in the confidential-chain variant\<close>

text \<open>
  The pipeline of this variant ends with the status write \<open>CLAIM_PENDING\<close>, which
  cannot throw: when the event handling throws, the write has not happened.
\<close>

lemma claimsOnFailure_andThen:
  assumes m: "calm m" and f: "\<And>x. claimsOnFailure s k t (f x)"
  shows "claimsOnFailure s k t (andThen m f)"
  unfolding claimsOnFailure_def
proof (intro allI impI)
  fix w e w''
  assume a: "andThen m f w = (Inl e, w'')"
  obtain r w' where mw: "m w = (r, w')" by (cases "m w")
  from calmD[OF m mw] obtain es where 1: "status w' = status w" "trace w' = trace w @ es"
      "list_all exchangeEffect es" by blast
  show "status w'' = status w \<and>
        (\<exists>es. trace w'' = trace w @ es \<and>
              (list_all exchangeEffect es \<or> claimBroadcast s k t es))"
  proof (cases r)
    case (Inl e')
    then have "w'' = w'" using a mw by (simp add: andThen_def)
    then show ?thesis using 1 by blast
  next
    case (Inr x)
    then have "f x w' = (Inl e, w'')" using a mw by (simp add: andThen_def)
    with f[of x] obtain es' where 2: "status w'' = status w'" "trace w'' = trace w' @ es'"
        "list_all exchangeEffect es' \<or> claimBroadcast s k t es'"
      unfolding claimsOnFailure_def by blast
    have "trace w'' = trace w @ (es @ es')" using 1 2 by simp
    moreover have "list_all exchangeEffect (es @ es') \<or> claimBroadcast s k t (es @ es')"
      using 1(3) 2(3) claimBroadcast_append[of es s k t es'] by auto
    ultimately show ?thesis using 1 2 by metis
  qed
qed

lemma claimsOnFailure_then_update:
  assumes "claims s k t m"
  shows "claimsOnFailure s k t (andThen m (\<lambda>_. updateChainSwapStatus i st h))"
  unfolding claimsOnFailure_def
proof (intro allI impI)
  fix w e w'
  assume a: "andThen m (\<lambda>_. updateChainSwapStatus i st h) w = (Inl e, w')"
  have "m w = (Inl e, w')"
    using a by (cases "m w") (auto simp: andThen_def updateChainSwapStatus_def split: sum.splits)
  from claimsD[OF assms this]
  show "status w' = status w \<and>
        (\<exists>es. trace w' = trace w @ es \<and>
              (list_all exchangeEffect es \<or> claimBroadcast s k t es))" .
qed

lemma serverMempool_try_failed:
  assumes "serverMempool_try E ent h w = (Inl e, w')"
  shows "status w' = status w \<and>
         (\<exists>es. trace w' = trace w @ es \<and>
            (list_all exchangeEffect es \<or>
             (\<exists>d w1. createClaimTransaction_liquid E (preimage ent) ent h w = (Inr d, w1) \<and>
                     claimBroadcast (sessions w) (claimPublicKey ent) (transaction d) es)))"
proof -
  obtain rc w1 where c: "createClaimTransaction_liquid E (preimage ent) ent h w = (rc, w1)"
    by (cases "createClaimTransaction_liquid E (preimage ent) ent h w")
  from calmD[OF calm_createClaimTransaction_liquid c] obtain es1 where
    1: "status w1 = status w" "trace w1 = trace w @ es1" "list_all exchangeEffect es1"
    by blast
  show ?thesis
  proof (cases rc)
    case (Inl e')
    then have "w' = w1"
      using assms c by (simp add: serverMempool_try_def andThen_def)
    then show ?thesis using 1 by blast
  next
    case (Inr d)
    let ?rest = "andThen (musigCall E (musig d) GetPublicNonce) (\<lambda>nonce.
       andThen (getBoltzPartialSignature E Liquid (preimage ent) ent nonce (transaction d))
         (\<lambda>boltzPartialSignature.
       andThen (performChainSwapClaim E Liquid d ent boltzPartialSignature) (\<lambda>_.
       updateChainSwapStatus (entityId ent) CLAIM_PENDING None)))"
    have r: "?rest w1 = (Inl e, w')"
      using assms c Inr by (simp add: serverMempool_try_def andThen_def)
    have "claimsOnFailure (musig d) (boltzPublicKey d) (transaction d) ?rest"
      by (intro claimsOnFailure_andThen calm_musigCall calm_getBoltzPartialSignature
          claimsOnFailure_then_update claims_performChainSwapClaim)
    with r obtain es2 where
      2: "status w' = status w1" "trace w' = trace w1 @ es2"
         "list_all exchangeEffect es2 \<or> claimBroadcast (musig d) (boltzPublicKey d) (transaction d) es2"
      unfolding claimsOnFailure_def by blast
    have m: "musig d = sessions w" "boltzPublicKey d = claimPublicKey ent"
      using createClaimTransaction_liquid_returns[OF c[unfolded Inr]] by simp_all
    have "trace w' = trace w @ (es1 @ es2)" using 1 2 by simp
    moreover have "list_all exchangeEffect (es1 @ es2) \<or>
        claimBroadcast (sessions w) (claimPublicKey ent) (transaction d) (es1 @ es2)"
      using 1(3) 2(3) claimBroadcast_append[of es1 "musig d" "boltzPublicKey d" "transaction d" es2] m by auto
    ultimately show ?thesis using 1 2 c Inr by metis
  qed
qed

lemma serverMempool_liquid_failed:
  assumes "serverMempool_liquid E ent hex w = (Inl e, w')"
  shows "status w' = status w \<and>
         (\<exists>es. trace w' = trace w @ es \<and>
            (list_all exchangeEffect es \<or>
             (\<exists>h d w1. hex = Some h \<and>
                createClaimTransaction_liquid E (preimage ent) ent h w = (Inr d, w1) \<and>
                claimBroadcast (sessions w) (claimPublicKey ent) (transaction d) es)))"
proof (cases "hex = None \<or> hex = Some []")
  case True
  then have "w' = w" using assms by (auto simp: serverMempool_liquid_def throw_def)
  then show ?thesis by simp
next
  case False
  then obtain h where h: "hex = Some h" "h \<noteq> []" by auto
  have "serverMempool_try E ent h w = (Inl e, w')"
    using assms h
    by (cases "serverMempool_try E ent h w")
      (auto simp: serverMempool_liquid_def catch_def throw_def split: sum.splits)
  from serverMempool_try_failed[OF this] show ?thesis using h by blast
qed

lemma mempool_failure_liquid:
  assumes msg: "event msg = Some ''update''" "args msg = Some (Some a # rest)"
      "argId a = swapId ent"
    and st: "argStatus a = ''transaction.server.mempool''"
    and fails: "fst (serverMempool_liquid E ent (transactionHex a) w) = Inl e"
  shows "fst (onMessage_liquid E ent msg w) = Inr () \<and>
         status (snd (onMessage_liquid E ent msg w)) = CLAIM_FAILED \<and>
         (\<exists>es. trace (snd (onMessage_liquid E ent msg w)) =
                 trace w @ es @ [StatusUpdate CLAIM_FAILED None,
                                 Unsubscribe ''swap.update'' [swapId ent]] \<and>
               (list_all exchangeEffect es \<or>
                (\<exists>h d w1. transactionHex a = Some h \<and>
                   createClaimTransaction_liquid E (preimage ent) ent h w = (Inr d, w1) \<and>
                   claimBroadcast (sessions w) (claimPublicKey ent) (transaction d) es)))"
proof -
  obtain w' where t: "serverMempool_liquid E ent (transactionHex a) w = (Inl e, w')"
    using fails by (cases "serverMempool_liquid E ent (transactionHex a) w") simp
  from serverMempool_liquid_failed[OF t] obtain es where
    es: "trace w' = trace w @ es"
        "list_all exchangeEffect es \<or>
         (\<exists>h d w1. transactionHex a = Some h \<and>
            createClaimTransaction_liquid E (preimage ent) ent h w = (Inr d, w1) \<and>
            claimBroadcast (sessions w) (claimPublicKey ent) (transaction d) es)"
    by blast
  have sw: "statusSwitch_liquid E ent a w = (Inl e, w')"
    using st t by (simp add: statusSwitch_liquid_def)
  have "onMessage_liquid E ent msg w =
      (Inr (), w'\<lparr>status := CLAIM_FAILED,
                  trace := trace w' @ [StatusUpdate CLAIM_FAILED None,
                                       Unsubscribe ''swap.update'' [swapId ent]]\<rparr>)"
    unfolding onMessage_liquid_def
    using dispatch_failed[of msg a rest ent "statusSwitch_liquid E ent", OF msg sw] by simp
  then show ?thesis using es by simp
qed

section \<open>Runs of the scenario\<close>

lemma switch_simple:
  "statusSwitch E ent \<lparr>argId = i, argStatus = ''swap.created'', argTransaction = t\<rparr> w =
     (Inr (), w\<lparr>status := LOCKUP_PENDING, trace := trace w @ [StatusUpdate LOCKUP_PENDING None]\<rparr>)"
  "statusSwitch E ent \<lparr>argId = i, argStatus = ''transaction.lockup'', argTransaction = t\<rparr> w =
     (Inr (), w\<lparr>status := LOCKUP_CONFIRMED,
                trace := trace w @ [StatusUpdate LOCKUP_CONFIRMED
                  (transactionId \<lparr>argId = i, argStatus = ''transaction.lockup'', argTransaction = t\<rparr>)]\<rparr>)"
  "statusSwitch E ent \<lparr>argId = i, argStatus = ''transaction.server.mempool'', argTransaction = t\<rparr> w =
     (Inr (), w\<lparr>status := CLAIM_PENDING,
                trace := trace w @ [StatusUpdate CLAIM_PENDING
                  (transactionId \<lparr>argId = i, argStatus = ''transaction.server.mempool'', argTransaction = t\<rparr>)]\<rparr>)"
  "statusSwitch E ent \<lparr>argId = i, argStatus = ''transaction.claimed'', argTransaction = t\<rparr> w =
     (Inr (), w\<lparr>status := CLAIM_CONFIRMED, trace := trace w @ [StatusUpdate CLAIM_CONFIRMED None]\<rparr>)"
  by (simp_all add: statusSwitch_def updateChainSwapStatus_def)

lemma switch_confirmed:
  "statusSwitch E ent \<lparr>argId = i, argStatus = ''transaction.server.confirmed'', argTransaction = t\<rparr> =
     broadcastCoSignedClaimTransaction E ent
       (transactionHex \<lparr>argId = i, argStatus = ''transaction.server.confirmed'', argTransaction = t\<rparr>)"
  by (simp add: statusSwitch_def fun_eq_iff)

lemma demo_broadcast:
  "broadcastCoSignedClaimTransaction demoEnv demoEntity (Some ''lockup'') w =
     (Inr (), w\<lparr>draws := Suc (Suc (draws w)), sessions := Suc (Suc (sessions w)),
                trace := trace w @ attemptEffects (draws w) (sessions w)\<rparr>)"
  by (simp add: broadcastCoSignedClaimTransaction_def catch_def demo_try)

lemma demo_run:
  "deliver (onMessage demoEnv demoEntity) canonicalMessages initialWorld =
     \<lparr>status = CLAIM_CONFIRMED, draws = 2, sessions = 2,
      trace = [StatusUpdate LOCKUP_PENDING None, StatusUpdate LOCKUP_CONFIRMED (Some ''txid''),
               StatusUpdate CLAIM_PENDING (Some ''txid'')] @ attemptEffects 0 0 @
              [StatusUpdate CLAIM_CONFIRMED None]\<rparr>"
  by (simp add: canonicalMessages_def onMessage_update catch_def switch_simple switch_confirmed
      transactionId_def transactionHex_def demo_broadcast initialWorld_def)

lemma attemptEffects_no_unsubscribe: "filter isUnsubscribe (attemptEffects k s) = []"
  by (simp add: attemptEffects_def createEffects_def exchangeEffects_def claimEffects_def
      isUnsubscribe_def)


section \<open>Single events\<close>

lemma createClaimTransaction_no_output:
  assumes "musigLib E (trace w) (sessions w)
             (Construct (drawn E (draws w)) [claimPublicKey ent, publicKey E]) = Inr r"
    and "deserializeSwapTree E (claimSwapTree ent) = Inr tree"
    and "musigLib E
           (trace w @ [MusigCall (sessions w)
              (Construct (drawn E (draws w)) [claimPublicKey ent, publicKey E]) (Inr r)])
           (sessions w) (TweakMusig BTC tree) = Inr key"
    and "transactionFromHex E h = Inr lockupTx"
    and "detectSwap E key lockupTx = None"
  shows "createClaimTransaction E p ent (Some h) w =
           (Inl (Error ''No swap output found in lockup transaction''),
            w\<lparr>draws := Suc (draws w), sessions := Suc (sessions w),
              trace := trace w @
                [MusigCall (sessions w)
                   (Construct (drawn E (draws w)) [claimPublicKey ent, publicKey E]) (Inr r),
                 MusigCall (sessions w) (TweakMusig BTC tree) (Inr key)]\<rparr>)"
  using assms
  by (simp add: createClaimTransaction_def andThen_def newMusig_def randomBytes_def
      musigCall_def Let_def ret_def lift_def throw_def drawn_def)

lemma confirmed_no_output:
  assumes msg: "event msg = Some ''update''" "args msg = Some (Some a # rest)"
      "argId a = swapId ent"
    and st: "argStatus a = ''transaction.server.confirmed''"
    and c: "musigLib E (trace w) (sessions w)
             (Construct (drawn E (draws w)) [claimPublicKey ent, publicKey E]) = Inr r"
      "deserializeSwapTree E (claimSwapTree ent) = Inr tree"
      "musigLib E
           (trace w @ [MusigCall (sessions w)
              (Construct (drawn E (draws w)) [claimPublicKey ent, publicKey E]) (Inr r)])
           (sessions w) (TweakMusig BTC tree) = Inr key"
    and hex: "transactionHex a = Some h"
    and d: "transactionFromHex E h = Inr lockupTx" "detectSwap E key lockupTx = None"
  shows "onMessage E ent msg w =
           (Inr (),
            w\<lparr>status := CLAIM_FAILED, draws := Suc (draws w), sessions := Suc (sessions w),
              trace := trace w @
                [MusigCall (sessions w)
                   (Construct (drawn E (draws w)) [claimPublicKey ent, publicKey E]) (Inr r),
                 MusigCall (sessions w) (TweakMusig BTC tree) (Inr key),
                 StatusUpdate CLAIM_FAILED None, StatusUpdate CLAIM_FAILED None,
                 Unsubscribe ''swap.update'' [swapId ent]]\<rparr>)"
proof -
  have "broadcastCoSignedClaimTransaction_try E ent (transactionHex a) w =
           (Inl (Error ''No swap output found in lockup transaction''),
            w\<lparr>draws := Suc (draws w), sessions := Suc (sessions w),
              trace := trace w @
                [MusigCall (sessions w)
                   (Construct (drawn E (draws w)) [claimPublicKey ent, publicKey E]) (Inr r),
                 MusigCall (sessions w) (TweakMusig BTC tree) (Inr key)]\<rparr>)"
    unfolding broadcastCoSignedClaimTransaction_try_def hex
    by (simp add: andThen_def createClaimTransaction_no_output[OF c d])
  from confirmed_failure[OF msg st this] show ?thesis by simp
qed

lemma claimed_btc:
  assumes "event msg = Some ''update''" and "args msg = Some (Some a # rest)"
    and "argId a = swapId ent" and "argStatus a = ''transaction.claimed''"
  shows "onMessage E ent msg w =
           (Inr (), w\<lparr>status := CLAIM_CONFIRMED,
                      trace := trace w @ [StatusUpdate CLAIM_CONFIRMED None]\<rparr>)"
  using assms
  by (simp add: onMessage_def dispatch_def catch_def statusSwitch_def updateChainSwapStatus_def)

lemma claimed_liquid:
  assumes "event msg = Some ''update''" and "args msg = Some (Some a # rest)"
    and "argId a = swapId ent" and "argStatus a = ''transaction.claimed''"
  shows "onMessage_liquid E ent msg w =
           (Inr (), w\<lparr>status := CLAIM_CONFIRMED,
                      trace := trace w @ [StatusUpdate CLAIM_CONFIRMED None,
                                          Unsubscribe ''swap.update'' [swapId ent]]\<rparr>)"
  using assms
  by (simp add: onMessage_liquid_def dispatch_def catch_def statusSwitch_liquid_def
      finishChainSwap_def andThen_def updateChainSwapStatus_def unsubscribe_def emit_def)

lemma try_status:
  "status (snd (broadcastCoSignedClaimTransaction_try E ent hex w)) = status w"
  using try_claims[of E ent hex w] by (cases "broadcastCoSignedClaimTransaction_try E ent hex w") simp

lemma confirmed_status:
  assumes msg: "event msg = Some ''update''" "args msg = Some (Some a # rest)"
      "argId a = swapId ent"
    and st: "argStatus a = ''transaction.server.confirmed''"
  shows "status (snd (onMessage E ent msg w)) =
           (case fst (broadcastCoSignedClaimTransaction_try E ent (transactionHex a) w) of
              Inl e \<Rightarrow> CLAIM_FAILED | Inr u \<Rightarrow> status w)"
proof (cases "fst (broadcastCoSignedClaimTransaction_try E ent (transactionHex a) w)")
  case (Inl e)
  then show ?thesis using confirmed_failure_claims[OF msg st Inl] by simp
next
  case (Inr u)
  obtain w' where t: "broadcastCoSignedClaimTransaction_try E ent (transactionHex a) w = (Inr u, w')"
    using Inr by (cases "broadcastCoSignedClaimTransaction_try E ent (transactionHex a) w") simp
  have "status w' = status w" using try_status[of E ent "transactionHex a" w] t by simp
  moreover have "statusSwitch E ent a w = (Inr u, w')"
    using st t by (simp add: statusSwitch_def broadcastCoSignedClaimTransaction_def catch_def)
  ultimately show ?thesis
    using Inr dispatch_returned[of msg a rest ent "statusSwitch E ent", OF msg]
    by (simp add: onMessage_def)
qed

section \<open>Every session draws its own seed\<close>

lemma seedsOf_append: "seedsOf (xs @ ys) = seedsOf xs @ seedsOf ys"
  by (simp add: seedsOf_def List.map_filter_def)

lemma freshSeeds_refl: "freshSeeds E w w"
  unfolding freshSeeds_def by simp

lemma freshSeeds_same:
  "draws w' = draws w \<Longrightarrow> seedsOf (trace w') = seedsOf (trace w) \<Longrightarrow> freshSeeds E w w'"
  unfolding freshSeeds_def by simp

lemma freshSeeds_trans:
  assumes "freshSeeds E a b" and "freshSeeds E b c"
  shows "freshSeeds E a c"
proof -
  from assms have 1: "draws a \<le> draws b" "draws b \<le> draws c"
    and 2: "seedsOf (trace b) = seedsOf (trace a) @ map (drawn E) [draws a..<draws b]"
      "seedsOf (trace c) = seedsOf (trace b) @ map (drawn E) [draws b..<draws c]"
    unfolding freshSeeds_def by simp_all
  have "[draws a..<draws c] = [draws a..<draws b] @ [draws b..<draws c]"
    using 1 upt_add_eq_append[of "draws a" "draws b" "draws c - draws b"] by simp
  then show ?thesis
    unfolding freshSeeds_def using 1 2 by simp
qed

lemma freshly_ret: "freshly E (ret x)"
  by (simp add: freshly_def ret_def freshSeeds_refl)

lemma freshly_throw: "freshly E (throw e)"
  by (simp add: freshly_def throw_def freshSeeds_refl)

lemma freshly_lift: "freshly E (lift r)"
  by (simp add: freshly_def lift_def freshSeeds_refl)

lemma freshly_andThen:
  assumes "freshly E m" and "\<And>x. freshly E (f x)"
  shows "freshly E (andThen m f)"
  unfolding freshly_def
proof
  fix w
  obtain r w' where mw: "m w = (r, w')" by (cases "m w")
  have 1: "freshSeeds E w w'" using assms(1) mw unfolding freshly_def by (metis snd_conv)
  show "freshSeeds E w (snd (andThen m f w))"
  proof (cases r)
    case (Inl e)
    then show ?thesis using mw 1 by (simp add: andThen_def)
  next
    case (Inr x)
    have "freshSeeds E w' (snd (f x w'))" using assms(2)[of x] unfolding freshly_def by blast
    then show ?thesis using Inr mw freshSeeds_trans[OF 1] by (simp add: andThen_def)
  qed
qed

lemma freshly_catch:
  assumes "freshly E m" and "\<And>e. freshly E (h e)"
  shows "freshly E (catch m h)"
  unfolding freshly_def
proof
  fix w
  obtain r w' where mw: "m w = (r, w')" by (cases "m w")
  have 1: "freshSeeds E w w'" using assms(1) mw unfolding freshly_def by (metis snd_conv)
  show "freshSeeds E w (snd (catch m h w))"
  proof (cases r)
    case (Inr x)
    then show ?thesis using mw 1 by (simp add: catch_def)
  next
    case (Inl e)
    have "freshSeeds E w' (snd (h e w'))" using assms(2)[of e] unfolding freshly_def by blast
    then show ?thesis using Inl mw freshSeeds_trans[OF 1] by (simp add: catch_def)
  qed
qed

lemma freshly_musigCall:
  "\<forall>seed keys. op \<noteq> Construct seed keys \<Longrightarrow> freshly E (musigCall E s op)"
  unfolding freshly_def musigCall_def Let_def
  by (cases op) (auto intro!: freshSeeds_same simp: seedsOf_append seedsOf_def List.map_filter_def)

lemma freshly_newMusig: "freshly E (newMusig E keys)"
  unfolding freshly_def freshSeeds_def newMusig_def
  by (auto simp: andThen_def randomBytes_def musigCall_def Let_def ret_def seedsOf_append
      seedsOf_def List.map_filter_def drawn_def split: sum.splits)

lemma freshly_called: "\<forall>s op r. x \<noteq> MusigCall s op r \<Longrightarrow> freshly E (called x f)"
  unfolding freshly_def called_def
  by (cases x) (auto intro!: freshSeeds_same simp: seedsOf_append seedsOf_def List.map_filter_def)

lemma freshly_emit: "\<forall>s op r. x \<noteq> MusigCall s op r \<Longrightarrow> freshly E (emit x)"
  unfolding freshly_def emit_def
  by (cases x) (auto intro!: freshSeeds_same simp: seedsOf_append seedsOf_def List.map_filter_def)

lemma freshly_updateChainSwapStatus: "freshly E (updateChainSwapStatus i st h)"
  unfolding freshly_def updateChainSwapStatus_def
  by (auto intro!: freshSeeds_same simp: seedsOf_append seedsOf_def List.map_filter_def)

lemma freshly_setWitness: "freshly E (setWitness t wit)"
  unfolding setWitness_def by (cases "ins t") (simp_all add: freshly_throw freshly_ret)

lemma freshly_case_option:
  "freshly E a \<Longrightarrow> (\<And>y. freshly E (b y)) \<Longrightarrow>
     freshly E (case x of None \<Rightarrow> a | Some y \<Rightarrow> b y)"
  by (cases x) simp_all

lemma freshly_if: "freshly E a \<Longrightarrow> freshly E b \<Longrightarrow> freshly E (if c then a else b)"
  by simp

lemmas freshly_intros =
  freshly_andThen freshly_catch freshly_ret freshly_throw freshly_lift freshly_newMusig
  freshly_updateChainSwapStatus freshly_setWitness freshly_case_option freshly_if

lemma freshly_createClaimTransaction: "freshly E (createClaimTransaction E p ent hex)"
  unfolding createClaimTransaction_def
  by (intro freshly_intros freshly_musigCall) simp_all

lemma freshly_createClaimTransaction_liquid:
  "freshly E (createClaimTransaction_liquid E p ent hex)"
  unfolding createClaimTransaction_liquid_def
  by (intro freshly_intros freshly_musigCall) simp_all

lemma freshly_getBoltzPartialSignature: "freshly E (getBoltzPartialSignature E ch p ent n t)"
  unfolding getBoltzPartialSignature_def
  by (intro freshly_intros freshly_musigCall freshly_called) simp_all

lemma freshly_performChainSwapClaim: "freshly E (performChainSwapClaim E ch d ent sig)"
  unfolding performChainSwapClaim_def
  by (intro freshly_intros freshly_musigCall freshly_called) simp_all

lemma freshly_try: "freshly E (broadcastCoSignedClaimTransaction_try E ent hex)"
  unfolding broadcastCoSignedClaimTransaction_try_def
  by (intro freshly_intros freshly_musigCall freshly_createClaimTransaction
      freshly_getBoltzPartialSignature freshly_performChainSwapClaim) simp_all

lemma freshly_serverMempool: "freshly E (serverMempool_liquid E ent hex)"
  unfolding serverMempool_liquid_def serverMempool_try_def
  by (intro freshly_intros freshly_musigCall freshly_createClaimTransaction_liquid
      freshly_getBoltzPartialSignature freshly_performChainSwapClaim) simp_all

lemma freshly_failAndUnsubscribe: "freshly E (failAndUnsubscribe ent st)"
  unfolding failAndUnsubscribe_def unsubscribe_def
  by (intro freshly_intros freshly_emit) simp_all

lemma freshly_statusSwitch: "freshly E (statusSwitch E ent a)"
  unfolding statusSwitch_def broadcastCoSignedClaimTransaction_def
  by (intro freshly_intros freshly_try freshly_failAndUnsubscribe)

lemma freshly_statusSwitch_liquid: "freshly E (statusSwitch_liquid E ent a)"
  unfolding statusSwitch_liquid_def finishChainSwap_def unsubscribe_def
  by (intro freshly_intros freshly_serverMempool freshly_failAndUnsubscribe freshly_emit) simp_all

lemma freshly_dispatch:
  assumes "\<And>a. freshly E (sw a)"
  shows "freshly E (dispatch sw ent msg)"
  unfolding dispatch_def
  by (auto intro!: freshly_intros freshly_failAndUnsubscribe assms split: option.splits list.splits)

lemma freshly_onMessage: "freshly E (onMessage E ent msg)"
  unfolding onMessage_def by (rule freshly_dispatch) (rule freshly_statusSwitch)

lemma freshly_onMessage_liquid: "freshly E (onMessage_liquid E ent msg)"
  unfolding onMessage_liquid_def by (rule freshly_dispatch) (rule freshly_statusSwitch_liquid)

lemma freshSeeds_deliver:
  assumes "\<And>m. freshly E (h m)"
  shows "freshSeeds E w (deliver h ms w)"
proof (induction ms arbitrary: w)
  case Nil
  show ?case by (simp add: freshSeeds_refl)
next
  case (Cons m ms)
  have "freshSeeds E w (snd (h m w))" using assms[of m] unfolding freshly_def by blast
  from freshSeeds_trans[OF this Cons.IH] show ?case by simp
qed

text \<open>
  What each of the two functions that construct a session adds to the trace, whatever its
  outcome: the construction comes first (after the request for the claim details in
  \<open>getBoltzPartialSignature\<close>), on the next session, with the next draw as seed.
\<close>

lemma createClaimTransaction_constructs:
  "\<exists>r rest.
     trace (snd (createClaimTransaction E p ent hex w)) =
       trace w @ MusigCall (sessions w)
                   (Construct (drawn E (draws w)) [claimPublicKey ent, publicKey E]) r # rest \<and>
     seedsOf rest = [] \<and>
     (r = musigLib E (trace w) (sessions w)
            (Construct (drawn E (draws w)) [claimPublicKey ent, publicKey E])) \<and>
     (rest = [] \<or>
      (\<exists>tree k. deserializeSwapTree E (claimSwapTree ent) = Inr tree \<and>
                rest = [MusigCall (sessions w) (TweakMusig BTC tree) k]))"
  by (auto simp: createClaimTransaction_def andThen_def newMusig_def randomBytes_def
      musigCall_def Let_def ret_def lift_def throw_def drawn_def seedsOf_def
      List.map_filter_def split: sum.splits option.splits)

lemma createClaimTransaction_liquid_constructs:
  "\<exists>r rest.
     trace (snd (createClaimTransaction_liquid E p ent hex w)) =
       trace w @ MusigCall (sessions w)
                   (Construct (drawn E (draws w)) [claimPublicKey ent, publicKey E]) r # rest \<and>
     seedsOf rest = [] \<and>
     (r = musigLib E (trace w) (sessions w)
            (Construct (drawn E (draws w)) [claimPublicKey ent, publicKey E])) \<and>
     (rest = [] \<or>
      (\<exists>tree k. deserializeSwapTree E (claimSwapTree ent) = Inr tree \<and>
                rest = [MusigCall (sessions w) (TweakMusig Liquid tree) k]))"
  by (auto simp: createClaimTransaction_liquid_def andThen_def newMusig_def randomBytes_def
      musigCall_def Let_def ret_def lift_def throw_def drawn_def seedsOf_def
      List.map_filter_def split: sum.splits option.splits)

lemma getBoltzPartialSignature_constructs:
  assumes "getClaimDetails E (trace w) ch (swapId ent) = Inr details"
  shows "\<exists>r rest.
     trace (snd (getBoltzPartialSignature E ch p ent n t w)) =
       trace w @ GetClaimDetails ch (swapId ent) #
         MusigCall (sessions w)
           (Construct (drawn E (draws w)) [lockupPublicKey ent, publicKey E]) r # rest \<and>
     seedsOf rest = [] \<and>
     (r = musigLib E (trace w @ [GetClaimDetails ch (swapId ent)]) (sessions w)
            (Construct (drawn E (draws w)) [lockupPublicKey ent, publicKey E])) \<and>
     (rest = [] \<or>
      (\<exists>tree k rest'. deserializeSwapTree E (lockupSwapTree ent) = Inr tree \<and>
                rest = MusigCall (sessions w) (TweakMusig Liquid tree) k # rest'))"
  using assms
  by (auto simp: getBoltzPartialSignature_def andThen_def newMusig_def randomBytes_def
      musigCall_def called_def Let_def ret_def lift_def throw_def drawn_def seedsOf_def
      List.map_filter_def split: sum.splits option.splits)

lemma drawn_demo: "drawn demoEnv k = replicate 32 (of_nat k)"
  by (simp add: drawn_def demoEnv_fields map_replicate_const)

lemma demo_two_attempts:
  "draws (deliver (onMessage demoEnv demoEntity)
            [update ''swap1'' ''transaction.server.confirmed'' (Some ''lockup''),
             update ''swap1'' ''transaction.server.confirmed'' (Some ''lockup'')] initialWorld) = 4"
  by (simp add: onMessage_update catch_def switch_confirmed transactionHex_def demo_broadcast
      initialWorld_def)


section \<open>Detection, fee search and fee schedule\<close>

lemma detectFrom_Some:
  assumes "detectFrom key i os = Some out"
  shows "i \<le> vout out \<and> vout out - i < length os \<and>
         isTaprootOutputFor key (os ! (vout out - i)) \<and>
         swapValue out = outValue (os ! (vout out - i)) \<and>
         swapScript out = outScript (os ! (vout out - i)) \<and>
         (\<forall>j < vout out - i. \<not> isTaprootOutputFor key (os ! j))"
  using assms
proof (induction os arbitrary: i)
  case Nil
  then show ?case by simp
next
  case (Cons a os)
  show ?case
  proof (cases "isTaprootOutputFor key a")
    case True
    then show ?thesis using Cons.prems by auto
  next
    case False
    then have d: "detectFrom key (Suc i) os = Some out" using Cons.prems by simp
    from Cons.IH[OF d] have ih: "Suc i \<le> vout out" "vout out - Suc i < length os"
      "isTaprootOutputFor key (os ! (vout out - Suc i))"
      "swapValue out = outValue (os ! (vout out - Suc i))"
      "swapScript out = outScript (os ! (vout out - Suc i))"
      "\<forall>j < vout out - Suc i. \<not> isTaprootOutputFor key (os ! j)"
      by blast+
    have e: "vout out - i = Suc (vout out - Suc i)" using ih(1) by simp
    show ?thesis
      unfolding e using ih False by (auto simp: less_Suc_eq_0_disj)
  qed
qed

lemma targetFee_search_Inr:
  assumes "targetFee_search n vsize rate build fee = Inr t"
    and "0 < fee" and "0 < rate" and "\<forall>t. 0 < vsize t"
  shows "\<exists>f. build f = Inr t \<and> 0 < f \<and> \<bar>\<lceil>of_nat (vsize t) * rate\<rceil> - f\<bar> \<le> 1"
  using assms(1,2)
proof (induction n arbitrary: fee)
  case 0
  then show ?case by simp
next
  case (Suc n)
  show ?case
  proof (cases "build fee")
    case (Inl e)
    then show ?thesis using Suc.prems by simp
  next
    case (Inr u)
    let ?fee' = "\<lceil>of_nat (vsize u) * rate\<rceil>"
    have pos: "0 < ?fee'" using assms(3,4) by simp
    show ?thesis
    proof (cases "\<bar>?fee' - fee\<bar> \<le> 1")
      case True
      then have "u = t" using Suc.prems Inr by (simp add: Let_def)
      then show ?thesis using Inr True Suc.prems(2) by blast
    next
      case False
      then have "targetFee_search n vsize rate build ?fee' = Inr t"
        using Suc.prems Inr by (simp add: Let_def)
      from Suc.IH[OF this pos] show ?thesis .
    qed
  qed
qed

lemma createClaimTransaction_built:
  assumes "createClaimTransaction E p ent hex w = (Inr d, w')"
  shows "\<exists>r tree key h lockupTx.
           musigLib E (trace w) (sessions w)
             (Construct (drawn E (draws w)) [claimPublicKey ent, publicKey E]) = Inr r \<and>
           deserializeSwapTree E (claimSwapTree ent) = Inr tree \<and>
           musigLib E
             (trace w @ [MusigCall (sessions w)
                (Construct (drawn E (draws w)) [claimPublicKey ent, publicKey E]) (Inr r)])
             (sessions w) (TweakMusig BTC tree) = Inr key \<and>
           hex = Some h \<and> transactionFromHex E h = Inr lockupTx \<and>
           detectSwap E key lockupTx = Some (swapOutput d) \<and>
           targetFee E (feeRate ent) (\<lambda>fee.
              case toOutputScript E BTC (userAddress ent) of
                Inl e \<Rightarrow> Inl e
              | Inr script \<Rightarrow>
                  constructClaimTransaction E BTC
                    [\<lparr>utxoOutput = swapOutput d, utxoPreimage = p, utxoCooperative = True,
                      utxoTxHash = getHash E lockupTx, utxoBlindingPrivateKey = None\<rparr>]
                    script fee None) = Inr (transaction d)"
  using assms
  by (auto simp: createClaimTransaction_def andThen_def newMusig_def randomBytes_def
      musigCall_def Let_def ret_def lift_def throw_def drawn_def
      split: sum.splits option.splits cong: sum.case_cong)

lemma constructClaimTransaction_spec_Inr:
  assumes "constructClaimTransaction_spec BTC [u] dest fee b = Inr t"
  shows "outs t = [\<lparr>outValue = swapValue (utxoOutput u) - fee, outScript = dest\<rparr>] \<and>
         0 < swapValue (utxoOutput u) - fee \<and>
         ins t = [\<lparr>prevHash = utxoTxHash u, prevIndex = vout (utxoOutput u), witness = []\<rparr>]"
  using assms by (auto simp: constructClaimTransaction_spec_def split: if_splits)

lemma createClaimTransaction_ignores_fees:
  "createClaimTransaction E p (ent\<lparr>minerFees := x, boltzFee := y\<rparr>) hex w =
   createClaimTransaction E p ent hex w"
  by (simp add: createClaimTransaction_def cong: option.case_cong)

lemma calculateLockupSend_returns:
  assumes "calculateLockupSend E amount w = (Inr r, w')"
  shows "sendBoltzFee r = minusAmount (minusAmount (lockupAmount r) amount) (sendMinerFees r) \<and>
         trace w' = trace w @ [GetNetworkFee ''BTC'', GetChainSwapFee] \<and>
         (\<exists>fees. getChainSwapFee E (trace w @ [GetNetworkFee ''BTC'']) = Inr fees \<and>
            sendMinerFees r = minerFeeServer fees + minerFeeUserClaim fees \<and>
            lockupAmount r = ceilQuotient E (amount + sendMinerFees r) (percentage fees))"
  using assms unfolding calculateLockupSend_def
  by (auto dest!: andThen_Inr simp: called_def ret_def Let_def)

lemma demo_lockupAmount: "\<lceil>(3400000::rat) / 133\<rceil> = 25564"
  by (simp add: ceiling_unique)

lemma demo_calculateLockupSend:
  "calculateLockupSend demoEnv 25000 w =
     (Inr \<lparr>lockupAmount = Num 25564, sendMinerFees = 500, sendBoltzFee = Num 64,
           sendFeeRate = 2\<rparr>,
      w\<lparr>trace := trace w @ [GetNetworkFee ''BTC'', GetChainSwapFee]\<rparr>)"
  by (simp add: calculateLockupSend_def andThen_def called_def ret_def Let_def demoEnv_fields
      demo_lockupAmount)

lemma demo_start:
  "fst (startBoltzChainSwapWithListeners demoEnv ''bcrt1q'' 25000 initialWorld) =
     Inr (\<lparr>responseId = ''swap1'',
           dtoLockupDetails = \<lparr>serverPublicKey = [0x02, 0x0F], swapTree = ''lockupTree'',
                                blindingKey = [0x04]\<rparr>,
           dtoClaimDetails = \<lparr>serverPublicKey = [0x02, 0x0E], swapTree = ''claimTree'',
                               blindingKey = []\<rparr>\<rparr>, demoEntity)"
  by (simp add: startBoltzChainSwapWithListeners_def andThen_def demo_calculateLockupSend
      randomBytes_def requestChainSwap_def called_def ret_def Let_def subscribe_def emit_def
      handleChainSwapStatusUpdates_def mockSwapEntity_def demoEntity_def initialWorld_def
      map_replicate_const demoEnv_fields)


section \<open>Failures of the claim pipeline\<close>

text \<open>
  C1. When the handling of an update for the tracked swap throws anywhere in the claim
  pipeline (the Bitcoin variant runs it on \<open>transaction.server.confirmed\<close>, the
  confidential-chain variant on \<open>transaction.server.mempool\<close>), the callback catches
  the exception and returns, the status is \<open>CLAIM_FAILED\<close>, and what has been added to
  the trace is: effects of the attempt, then the status write \<open>CLAIM_FAILED\<close> (twice in
  the Bitcoin variant, whose inner \<open>catch\<close> writes it before rethrowing), then one
  unsubscribe for the swap id, and nothing else. The effects of the attempt are session
  calls and the two calls of the signature exchange, with no broadcast among them; or they
  end with the one broadcast that the service then refused, which is of the claim
  transaction that \<open>createClaimTransaction\<close> returned, carrying as its witness the
  aggregate that the claim session returned after it had taken a partial signature for the
  claim key of the other party and had signed itself. A transaction signed by one party only, or not at all,
  is never broadcast.
\<close>

theorem claim_pipeline_failure_caught:
  assumes "event msg = Some ''update''" and "args msg = Some (Some a # rest)"
    and "argId a = swapId ent"
  shows "(argStatus a = ''transaction.server.confirmed'' \<and>
          fst (broadcastCoSignedClaimTransaction_try E ent (transactionHex a) w) = Inl e \<longrightarrow>
            fst (onMessage E ent msg w) = Inr () \<and>
            status (snd (onMessage E ent msg w)) = CLAIM_FAILED \<and>
            (\<exists>es. trace (snd (onMessage E ent msg w)) =
                    trace w @ es @ [StatusUpdate CLAIM_FAILED None, StatusUpdate CLAIM_FAILED None,
                                    Unsubscribe ''swap.update'' [swapId ent]] \<and>
                  (list_all exchangeEffect es \<or>
                   (\<exists>d w1. createClaimTransaction E (preimage ent) ent (transactionHex a) w =
                             (Inr d, w1) \<and>
                           claimBroadcast (sessions w) (claimPublicKey ent) (transaction d) es)))) \<and>
         (argStatus a = ''transaction.server.mempool'' \<and>
          fst (serverMempool_liquid E ent (transactionHex a) w) = Inl e \<longrightarrow>
            fst (onMessage_liquid E ent msg w) = Inr () \<and>
            status (snd (onMessage_liquid E ent msg w)) = CLAIM_FAILED \<and>
            (\<exists>es. trace (snd (onMessage_liquid E ent msg w)) =
                    trace w @ es @ [StatusUpdate CLAIM_FAILED None,
                                    Unsubscribe ''swap.update'' [swapId ent]] \<and>
                  (list_all exchangeEffect es \<or>
                   (\<exists>h d w1. transactionHex a = Some h \<and>
                      createClaimTransaction_liquid E (preimage ent) ent h w = (Inr d, w1) \<and>
                      claimBroadcast (sessions w) (claimPublicKey ent) (transaction d) es))))"
  using confirmed_failure_claims[OF assms, of E w e] mempool_failure_liquid[OF assms, of E w e]
  by blast

text \<open>
  The theorem at two failures. In the Bitcoin variant the service rejects the broadcast:
  the attempt has run to its end, and what was broadcast is the claim transaction of the
  scenario, co-signed on session 0. In the confidential-chain variant the event carries no
  transaction hex: nothing has run.
\<close>

theorem claim_pipeline_failure_caught_witness:
  "status (snd (onMessage rejectingEnv demoEntity
          (update ''swap1'' ''transaction.server.confirmed'' (Some ''lockup'')) initialWorld))
     = CLAIM_FAILED \<and>
   trace (snd (onMessage rejectingEnv demoEntity
          (update ''swap1'' ''transaction.server.confirmed'' (Some ''lockup'')) initialWorld)) =
     attemptEffects 0 0 @
       [StatusUpdate CLAIM_FAILED None, StatusUpdate CLAIM_FAILED None,
        Unsubscribe ''swap.update'' [''swap1'']] \<and>
   \<not> list_all exchangeEffect (attemptEffects 0 0) \<and>
   claimBroadcast 0 [0x02, 0x0E] demoClaimTx (attemptEffects 0 0) \<and>
   status (snd (onMessage_liquid demoEnv demoEntity
          (update ''swap1'' ''transaction.server.mempool'' None) initialWorld))
     = CLAIM_FAILED \<and>
   (\<exists>es. trace (snd (onMessage_liquid demoEnv demoEntity
          (update ''swap1'' ''transaction.server.mempool'' None) initialWorld)) =
         trace initialWorld @ es @
           [StatusUpdate CLAIM_FAILED None, Unsubscribe ''swap.update'' [swapId demoEntity]] \<and>
         (list_all exchangeEffect es \<or>
          (\<exists>h d w1.
             transactionHex \<lparr>argId = ''swap1'', argStatus = ''transaction.server.mempool'',
               argTransaction = Some \<lparr>txId = Some ''txid'', txHex = None\<rparr>\<rparr> = Some h \<and>
             createClaimTransaction_liquid demoEnv (preimage demoEntity) demoEntity h
               initialWorld = (Inr d, w1) \<and>
             claimBroadcast (sessions initialWorld) (claimPublicKey demoEntity) (transaction d) es)))"
proof -
  let ?a = "\<lparr>argId = ''swap1'', argStatus = ''transaction.server.confirmed'',
             argTransaction = Some \<lparr>txId = Some ''txid'', txHex = Some ''lockup''\<rparr>\<rparr>"
  let ?b = "\<lparr>argId = ''swap1'', argStatus = ''transaction.server.mempool'',
             argTransaction = Some \<lparr>txId = Some ''txid'', txHex = None\<rparr>\<rparr>"
  let ?run = "onMessage rejectingEnv demoEntity
          (update ''swap1'' ''transaction.server.confirmed'' (Some ''lockup'')) initialWorld"
  have a1: "event (update ''swap1'' ''transaction.server.confirmed'' (Some ''lockup'')) = Some ''update''"
    and a2: "args (update ''swap1'' ''transaction.server.confirmed'' (Some ''lockup'')) = Some (Some ?a # [])"
    and a3: "argId ?a = swapId demoEntity"
    by (simp_all add: update_fields demoEntity_fields)
  have a4: "argStatus ?a = ''transaction.server.confirmed'' \<and>
      fst (broadcastCoSignedClaimTransaction_try rejectingEnv demoEntity (transactionHex ?a)
             initialWorld) = Inl (ServiceError ''rejected'')"
    by (simp add: transactionHex_def demo_try)
  have b1: "event (update ''swap1'' ''transaction.server.mempool'' None) = Some ''update''"
    and b2: "args (update ''swap1'' ''transaction.server.mempool'' None) = Some (Some ?b # [])"
    and b3: "argId ?b = swapId demoEntity"
    by (simp_all add: update_fields demoEntity_fields)
  have b4: "argStatus ?b = ''transaction.server.mempool'' \<and>
      fst (serverMempool_liquid demoEnv demoEntity (transactionHex ?b) initialWorld) =
        Inl (Error ''No transaction hex provided in server mempool event'')"
    by (simp add: transactionHex_def serverMempool_liquid_def throw_def)
  have tr: "trace (snd ?run) =
     attemptEffects 0 0 @
       [StatusUpdate CLAIM_FAILED None, StatusUpdate CLAIM_FAILED None,
        Unsubscribe ''swap.update'' [''swap1'']]"
    by (simp add: onMessage_update catch_def switch_confirmed transactionHex_def
        broadcastCoSignedClaimTransaction_def demo_try failAndUnsubscribe_def andThen_def
        updateChainSwapStatus_def throw_def unsubscribe_def emit_def initialWorld_fields
        demoEntity_fields)
  have no: "\<not> list_all exchangeEffect (attemptEffects 0 0)"
    by (simp add: attemptEffects_def createEffects_def exchangeEffects_def claimEffects_def
        exchangeEffect_def)
  have d: "createClaimTransaction rejectingEnv (preimage demoEntity) demoEntity (transactionHex ?a)
             initialWorld = (Inr d, w1) \<Longrightarrow> transaction d = demoClaimTx" for d w1
    by (auto simp: transactionHex_def demo_createClaimTransaction demoDetails_fields)
  from claim_pipeline_failure_caught[OF a1 a2 a3, of rejectingEnv initialWorld
      "ServiceError ''rejected''"] a4
  obtain es where
    s: "status (snd ?run) = CLAIM_FAILED" and
    e: "trace (snd ?run) =
          trace initialWorld @ es @
            [StatusUpdate CLAIM_FAILED None, StatusUpdate CLAIM_FAILED None,
             Unsubscribe ''swap.update'' [swapId demoEntity]]" and
    c: "list_all exchangeEffect es \<or>
        (\<exists>d w1. createClaimTransaction rejectingEnv (preimage demoEntity) demoEntity
                   (transactionHex ?a) initialWorld = (Inr d, w1) \<and>
                 claimBroadcast (sessions initialWorld) (claimPublicKey demoEntity) (transaction d) es)"
    by blast
  have "es = attemptEffects 0 0"
    using e tr by (simp add: initialWorld_fields demoEntity_fields)
  with c no d have br: "claimBroadcast 0 [0x02, 0x0E] demoClaimTx (attemptEffects 0 0)"
    by (auto simp: initialWorld_fields demoEntity_fields)
  show ?thesis
    using s tr no br
      claim_pipeline_failure_caught[OF b1 b2 b3, of demoEnv initialWorld
        "Error ''No transaction hex provided in server mempool event''"] b4
    by blast
qed

section \<open>A lockup transaction without the swap output\<close>

text \<open>
  C2 does not hold as stated. In the scenario whose lockup transaction pays nothing to the
  tweaked key, the detector returns none, \<open>createClaimTransaction\<close> throws
  \<open>No swap output found in lockup transaction\<close>, and the callback leaves the swap in
  \<open>CLAIM_FAILED\<close> with the unsubscribe as its last effect: the missing output is mapped
  to a failure of the swap, and nothing retries.
\<close>

theorem missing_output_fails_swap:
  "detectSwap decoysOnlyEnv demoKey decoysOnlyTx = None \<and>
   fst (createClaimTransaction decoysOnlyEnv (preimage demoEntity) demoEntity (Some ''lockup'')
          initialWorld) = Inl (Error ''No swap output found in lockup transaction'') \<and>
   status (snd (onMessage decoysOnlyEnv demoEntity
          (update ''swap1'' ''transaction.server.confirmed'' (Some ''lockup'')) initialWorld))
     = CLAIM_FAILED \<and>
   last (trace (snd (onMessage decoysOnlyEnv demoEntity
          (update ''swap1'' ''transaction.server.confirmed'' (Some ''lockup'')) initialWorld)))
     = Unsubscribe ''swap.update'' [''swap1'']"
proof -
  let ?a = "\<lparr>argId = ''swap1'', argStatus = ''transaction.server.confirmed'',
             argTransaction = Some \<lparr>txId = Some ''txid'', txHex = Some ''lockup''\<rparr>\<rparr>"
  have c: "fst (createClaimTransaction decoysOnlyEnv (preimage demoEntity) demoEntity
             (Some ''lockup'') initialWorld) = Inl (Error ''No swap output found in lockup transaction'')"
    by (simp add: decoys_createClaimTransaction)
  have t: "broadcastCoSignedClaimTransaction_try decoysOnlyEnv demoEntity (transactionHex ?a)
             initialWorld =
           (Inl (Error ''No swap output found in lockup transaction''),
            initialWorld\<lparr>draws := Suc (draws initialWorld),
              sessions := Suc (sessions initialWorld),
              trace := trace initialWorld @
                createEffects (draws initialWorld) (sessions initialWorld)\<rparr>)"
    by (simp add: broadcastCoSignedClaimTransaction_try_def andThen_def transactionHex_def
        decoys_createClaimTransaction)
  have "status (snd (onMessage decoysOnlyEnv demoEntity
          (update ''swap1'' ''transaction.server.confirmed'' (Some ''lockup'')) initialWorld))
     = CLAIM_FAILED \<and>
    last (trace (snd (onMessage decoysOnlyEnv demoEntity
          (update ''swap1'' ''transaction.server.confirmed'' (Some ''lockup'')) initialWorld)))
     = Unsubscribe ''swap.update'' [''swap1'']"
    using confirmed_failure[of "update ''swap1'' ''transaction.server.confirmed'' (Some ''lockup'')"
        ?a "[]" demoEntity decoysOnlyEnv initialWorld, OF _ _ _ _ t]
    by (simp add: update_fields demoEntity_fields)
  then show ?thesis using c
    by (auto simp: decoysOnlyEnv_fields demoEnv_fields decoys_detect demoEntity_fields)
qed

text \<open>
  C2, amended. When the steps before the detection return (the claim session is
  constructed, the claim script tree is read, the tweak of the session returns a key, the
  event carries the hex of a lockup transaction that can be read) and the detector finds no
  output of that transaction for that key, \<open>createClaimTransaction\<close> throws
  \<open>No swap output found in lockup transaction\<close>, and the callback treats it as every
  other failure of the pipeline: after the two session calls nothing runs but the status
  write \<open>CLAIM_FAILED\<close>, made twice, and one unsubscribe for the swap id. The swap has
  failed; nothing waits or retries.
\<close>

theorem missing_output_is_ClaimFailed:
  assumes "event msg = Some ''update''" and "args msg = Some (Some a # rest)"
    and "argId a = swapId ent"
    and "argStatus a = ''transaction.server.confirmed''"
    and "musigLib E (trace w) (sessions w)
           (Construct (drawn E (draws w)) [claimPublicKey ent, publicKey E]) = Inr r"
    and "deserializeSwapTree E (claimSwapTree ent) = Inr tree"
    and "musigLib E
           (trace w @ [MusigCall (sessions w)
              (Construct (drawn E (draws w)) [claimPublicKey ent, publicKey E]) (Inr r)])
           (sessions w) (TweakMusig BTC tree) = Inr key"
    and "transactionHex a = Some h" and "transactionFromHex E h = Inr lockupTx"
    and "detectSwap E key lockupTx = None"
  shows "fst (createClaimTransaction E (preimage ent) ent (transactionHex a) w) =
           Inl (Error ''No swap output found in lockup transaction'') \<and>
         fst (onMessage E ent msg w) = Inr () \<and>
         status (snd (onMessage E ent msg w)) = CLAIM_FAILED \<and>
         trace (snd (onMessage E ent msg w)) =
           trace w @
             [MusigCall (sessions w)
                (Construct (drawn E (draws w)) [claimPublicKey ent, publicKey E]) (Inr r),
              MusigCall (sessions w) (TweakMusig BTC tree) (Inr key),
              StatusUpdate CLAIM_FAILED None, StatusUpdate CLAIM_FAILED None,
              Unsubscribe ''swap.update'' [swapId ent]]"
  using createClaimTransaction_no_output[OF assms(5,6,7,9,10), of "preimage ent"]
    confirmed_no_output[OF assms]
  by (simp add: assms(8))

theorem missing_output_is_ClaimFailed_witness:
  "fst (createClaimTransaction decoysOnlyEnv (preimage demoEntity) demoEntity
          (transactionHex \<lparr>argId = ''swap1'', argStatus = ''transaction.server.confirmed'',
             argTransaction = Some \<lparr>txId = Some ''txid'', txHex = Some ''lockup''\<rparr>\<rparr>)
          initialWorld) = Inl (Error ''No swap output found in lockup transaction'') \<and>
   fst (onMessage decoysOnlyEnv demoEntity
          (update ''swap1'' ''transaction.server.confirmed'' (Some ''lockup'')) initialWorld) = Inr () \<and>
   status (snd (onMessage decoysOnlyEnv demoEntity
          (update ''swap1'' ''transaction.server.confirmed'' (Some ''lockup'')) initialWorld))
     = CLAIM_FAILED \<and>
   trace (snd (onMessage decoysOnlyEnv demoEntity
          (update ''swap1'' ''transaction.server.confirmed'' (Some ''lockup'')) initialWorld)) =
     [MusigCall 0 (Construct (drawn decoysOnlyEnv 0) [[0x02, 0x0E], [0x02, 0x01]]) (Inr []),
      MusigCall 0 (TweakMusig BTC [0x07]) (Inr demoKey),
      StatusUpdate CLAIM_FAILED None, StatusUpdate CLAIM_FAILED None,
      Unsubscribe ''swap.update'' [''swap1'']]"
proof -
  let ?a = "\<lparr>argId = ''swap1'', argStatus = ''transaction.server.confirmed'',
             argTransaction = Some \<lparr>txId = Some ''txid'', txHex = Some ''lockup''\<rparr>\<rparr>"
  have 1: "event (update ''swap1'' ''transaction.server.confirmed'' (Some ''lockup'')) = Some ''update''"
    by (simp add: update_fields)
  have 2: "args (update ''swap1'' ''transaction.server.confirmed'' (Some ''lockup'')) = Some (Some ?a # [])"
    by (simp add: update_fields)
  have 3: "argId ?a = swapId demoEntity" by (simp add: demoEntity_fields)
  have 4: "argStatus ?a = ''transaction.server.confirmed''" by simp
  have 5: "musigLib decoysOnlyEnv (trace initialWorld) (sessions initialWorld)
           (Construct (drawn decoysOnlyEnv (draws initialWorld))
              [claimPublicKey demoEntity, publicKey decoysOnlyEnv]) = Inr []"
    by (simp add: decoysOnlyEnv_fields demoEnv_fields demoMusig_def)
  have 6: "deserializeSwapTree decoysOnlyEnv (claimSwapTree demoEntity) = Inr [0x07]"
    by (simp add: decoysOnlyEnv_fields demoEnv_fields)
  have 7: "musigLib decoysOnlyEnv
           (trace initialWorld @ [MusigCall (sessions initialWorld)
              (Construct (drawn decoysOnlyEnv (draws initialWorld))
                 [claimPublicKey demoEntity, publicKey decoysOnlyEnv]) (Inr [])])
           (sessions initialWorld) (TweakMusig BTC [0x07]) = Inr demoKey"
    by (simp add: decoysOnlyEnv_fields demoEnv_fields demoMusig_def)
  have 8: "transactionHex ?a = Some ''lockup''" by (simp add: transactionHex_def)
  have 9: "transactionFromHex decoysOnlyEnv ''lockup'' = Inr decoysOnlyTx"
    by (simp add: decoysOnlyEnv_fields)
  have 10: "detectSwap decoysOnlyEnv demoKey decoysOnlyTx = None"
    by (simp add: decoysOnlyEnv_fields demoEnv_fields decoys_detect)
  show ?thesis
    using missing_output_is_ClaimFailed[OF 1 2 3 4 5 6 7 8 9 10]
    by (simp add: initialWorld_fields demoEntity_fields decoysOnlyEnv_fields demoEnv_fields)
qed

section \<open>The canonical run\<close>

text \<open>
  C3. In the Bitcoin variant the canonical run of the scenario, with the claim pipeline
  succeeding, ends in \<open>CLAIM_CONFIRMED\<close> but issues no unsubscribe at all: the
  \<open>transaction.claimed\<close> case writes the status and stops (\<open>claimed_btc\<close>), where
  the same case of the confidential-chain variant also unsubscribes (\<open>claimed_liquid\<close>),
  as the three failure cases of both variants do.
\<close>

theorem canonical_run_btc_never_unsubscribes:
  "status (deliver (onMessage demoEnv demoEntity) canonicalMessages initialWorld) = CLAIM_CONFIRMED \<and>
   filter isUnsubscribe
     (trace (deliver (onMessage demoEnv demoEntity) canonicalMessages initialWorld)) = []"
  by (simp add: demo_run attemptEffects_no_unsubscribe isUnsubscribe_def)

section \<open>The status after an event\<close>

text \<open>
  C4 does not hold as stated. After \<open>transaction.claimed\<close> has brought the swap to the
  terminal \<open>CLAIM_CONFIRMED\<close>, a delivered \<open>swap.created\<close> for the same swap
  sets it back to \<open>LOCKUP_PENDING\<close>, an earlier state.
\<close>

theorem status_reenters_earlier_state:
  "status (deliver (onMessage demoEnv demoEntity)
             [update ''swap1'' ''transaction.claimed'' None] initialWorld) = CLAIM_CONFIRMED \<and>
   status (deliver (onMessage demoEnv demoEntity)
             [update ''swap1'' ''transaction.claimed'' None,
              update ''swap1'' ''swap.created'' None] initialWorld) = LOCKUP_PENDING \<and>
   statusCode LOCKUP_PENDING < statusCode CLAIM_CONFIRMED"
  by (simp add: onMessage_update catch_def switch_simple)

text \<open>
  C4, amended. The callback checks no precondition on the current status. After an update
  for the tracked swap the status is the one fixed by the status string of the event, whatever
  it was before; \<open>transaction.server.confirmed\<close> leaves the status as it was when the
  claim pipeline returns and sets \<open>CLAIM_FAILED\<close> when it throws; any other status
  string leaves the status as it was. So the status moves forward only as far as the events
  arrive in the order of the lifecycle.
\<close>

theorem status_set_by_event_alone:
  assumes "event msg = Some ''update''" and "args msg = Some (Some a # rest)"
    and "argId a = swapId ent"
  shows "status (snd (onMessage E ent msg w)) =
     (if argStatus a = ''swap.created'' then LOCKUP_PENDING
      else if argStatus a = ''transaction.lockup'' then LOCKUP_CONFIRMED
      else if argStatus a = ''transaction.server.mempool'' then CLAIM_PENDING
      else if argStatus a = ''transaction.server.confirmed'' then
        (case fst (broadcastCoSignedClaimTransaction_try E ent (transactionHex a) w) of
           Inl e \<Rightarrow> CLAIM_FAILED | Inr u \<Rightarrow> status w)
      else if argStatus a = ''transaction.claimed'' then CLAIM_CONFIRMED
      else if argStatus a = ''transaction.lockupFailed'' then LOCKUP_FAILED
      else if argStatus a = ''transaction.claimFailed'' then CLAIM_FAILED
      else if argStatus a = ''swap.expired'' then LOCKUP_FAILED
      else status w)"
proof (cases "argStatus a = ''transaction.server.confirmed''")
  case True
  then show ?thesis using confirmed_status[OF assms True] by simp
next
  case False
  then show ?thesis using assms
    by (simp add: onMessage_def dispatch_def catch_def statusSwitch_def updateChainSwapStatus_def
        failAndUnsubscribe_def andThen_def unsubscribe_def emit_def ret_def)
qed

theorem status_set_by_event_alone_witness:
  "status (snd (onMessage demoEnv demoEntity (update ''swap1'' ''swap.created'' None)
                  (initialWorld\<lparr>status := CLAIM_CONFIRMED\<rparr>))) = LOCKUP_PENDING"
  using status_set_by_event_alone[of "update ''swap1'' ''swap.created'' None"
      "\<lparr>argId = ''swap1'', argStatus = ''swap.created'',
        argTransaction = Some \<lparr>txId = Some ''txid'', txHex = None\<rparr>\<rparr>" "[]" demoEntity demoEnv
      "initialWorld\<lparr>status := CLAIM_CONFIRMED\<rparr>"]
  by (simp add: update_fields demoEntity_fields)

section \<open>The order of the session operations\<close>

text \<open>
  C5 does not hold as stated. In the scenario the claim attempt succeeds, and the operations
  on the claim session come in the order tweak, aggregateNonces, initializeSession, addPartial,
  signPartial, aggregatePartials: the remote partial signature is recorded before the local
  one is made.
\<close>

theorem addPartial_before_signPartial:
  "fst (broadcastCoSignedClaimTransaction_try demoEnv demoEntity (Some ''lockup'') initialWorld)
     = Inr () \<and>
   sessionSteps 0
     (trace (snd (broadcastCoSignedClaimTransaction_try demoEnv demoEntity (Some ''lockup'')
                    initialWorld)))
     = [''tweak'', ''aggregateNonces'', ''initializeSession'', ''addPartial'', ''signPartial'',
        ''aggregatePartials''] \<and>
   sessionSteps 0
     (trace (snd (broadcastCoSignedClaimTransaction_try demoEnv demoEntity (Some ''lockup'')
                    initialWorld)))
     \<noteq> [''tweak'', ''aggregateNonces'', ''initializeSession'', ''signPartial'', ''addPartial'',
        ''aggregatePartials'']"
  by (simp add: demo_try initialWorld_def attemptEffects_def createEffects_def
      exchangeEffects_def claimEffects_def sessionSteps_def protocolStep_def List.map_filter_def)

text \<open>
  C5, amended. In every claim attempt that returns, the operations invoked on the claim
  session (the one created by \<open>createClaimTransaction\<close>) are, in this order, tweak,
  aggregateNonces, initializeSession, addPartial, signPartial, aggregatePartials:
  \<open>addPartial\<close> comes before \<open>signPartial\<close>, and \<open>aggregatePartials\<close> is last.
  The session of \<open>getBoltzPartialSignature\<close>, created next, sees tweak,
  aggregateNonces, initializeSession, signPartial.
\<close>

theorem claim_session_order:
  assumes "fst (broadcastCoSignedClaimTransaction_try E ent hex w) = Inr u"
  shows "\<exists>es. trace (snd (broadcastCoSignedClaimTransaction_try E ent hex w)) = trace w @ es \<and>
           sessionSteps (sessions w) es =
             [''tweak'', ''aggregateNonces'', ''initializeSession'', ''addPartial'',
              ''signPartial'', ''aggregatePartials''] \<and>
           sessionSteps (Suc (sessions w)) es =
             [''tweak'', ''aggregateNonces'', ''initializeSession'', ''signPartial'']"
proof -
  obtain w' where t: "broadcastCoSignedClaimTransaction_try E ent hex w = (Inr u, w')"
    using assms by (cases "broadcastCoSignedClaimTransaction_try E ent hex w") simp
  show ?thesis using try_returns[OF t] t by simp
qed

theorem claim_session_order_witness:
  "\<exists>es. trace (snd (broadcastCoSignedClaimTransaction_try demoEnv demoEntity (Some ''lockup'')
                      initialWorld)) = trace initialWorld @ es \<and>
         sessionSteps (sessions initialWorld) es =
           [''tweak'', ''aggregateNonces'', ''initializeSession'', ''addPartial'',
            ''signPartial'', ''aggregatePartials''] \<and>
         sessionSteps (Suc (sessions initialWorld)) es =
           [''tweak'', ''aggregateNonces'', ''initializeSession'', ''signPartial'']"
proof -
  have "fst (broadcastCoSignedClaimTransaction_try demoEnv demoEntity (Some ''lockup'')
               initialWorld) = Inr ()"
    by (simp add: demo_try)
  then show ?thesis by (rule claim_session_order)
qed

section \<open>The witness of the claim transaction\<close>

text \<open>
  C8. When \<open>performChainSwapClaim\<close> returns, the claim transaction had a first input,
  and the last two effects are the call of \<open>aggregatePartials\<close> on the claim session
  and the broadcast of the claim transaction with the witness of that input set to the
  one-element list holding what \<open>aggregatePartials\<close> returned; the four effects before
  are the other session calls. The preimage and the script path are nowhere in it.
\<close>

theorem finalized_witness_is_aggregate:
  assumes "fst (performChainSwapClaim E ch d ent sig w) = Inr u"
  shows "\<exists>agg i rest es.
           ins (transaction d) = i # rest \<and> length es = 4 \<and>
           trace (snd (performChainSwapClaim E ch d ent sig w)) =
             trace w @ es @
               [MusigCall (musig d) AggregatePartials (Inr agg),
                ClaimBTC ((transaction d)\<lparr>ins := i\<lparr>witness := [agg]\<rparr> # rest\<rparr>)]"
proof -
  obtain w' where t: "performChainSwapClaim E ch d ent sig w = (Inr u, w')"
    using assms by (cases "performChainSwapClaim E ch d ent sig w") simp
  from performChainSwapClaim_returns[OF t] obtain r1 h r2 r3 r4 agg i rest where
    i: "ins (transaction d) = i # rest" and
    tr: "trace w' = trace w @
             [MusigCall (musig d) (AggregateNonces [(boltzPublicKey d, pubNonce sig)]) (Inr r1),
              MusigCall (musig d) (InitializeSession h) (Inr r2),
              MusigCall (musig d) (AddPartial (boltzPublicKey d) (partialSignature sig)) (Inr r3),
              MusigCall (musig d) SignPartial (Inr r4),
              MusigCall (musig d) AggregatePartials (Inr agg),
              ClaimBTC ((transaction d)\<lparr>ins := i\<lparr>witness := [agg]\<rparr> # rest\<rparr>)]"
    by blast
  let ?es = "[MusigCall (musig d) (AggregateNonces [(boltzPublicKey d, pubNonce sig)]) (Inr r1),
              MusigCall (musig d) (InitializeSession h) (Inr r2),
              MusigCall (musig d) (AddPartial (boltzPublicKey d) (partialSignature sig)) (Inr r3),
              MusigCall (musig d) SignPartial (Inr r4)]"
  have "ins (transaction d) = i # rest \<and> length ?es = 4 \<and>
        trace (snd (performChainSwapClaim E ch d ent sig w)) =
             trace w @ ?es @
               [MusigCall (musig d) AggregatePartials (Inr agg),
                ClaimBTC ((transaction d)\<lparr>ins := i\<lparr>witness := [agg]\<rparr> # rest\<rparr>)]"
    using i tr t by simp
  then show ?thesis by blast
qed

theorem finalized_witness_is_aggregate_witness:
  "\<exists>agg i rest es.
     ins (transaction (demoDetails 0)) = i # rest \<and> length es = 4 \<and>
     trace (snd (performChainSwapClaim demoEnv BTC (demoDetails 0) demoEntity demoSignature
                   initialWorld)) =
       trace initialWorld @ es @
         [MusigCall (musig (demoDetails 0)) AggregatePartials (Inr agg),
          ClaimBTC ((transaction (demoDetails 0))\<lparr>ins := i\<lparr>witness := [agg]\<rparr> # rest\<rparr>)]"
proof -
  have "fst (performChainSwapClaim demoEnv BTC (demoDetails 0) demoEntity demoSignature
               initialWorld) = Inr ()"
    by (simp add: demo_performChainSwapClaim)
  then show ?thesis by (rule finalized_witness_is_aggregate)
qed

section \<open>Fresh nonce seeds\<close>

text \<open>
  C6. Each of the two functions that make a signing session constructs it, whatever happens
  afterwards, on a new session and with the 32 bytes of the next random draw as its seed:
  \<open>createClaimTransaction\<close> (in both variants) as its first effect, for the keys of the
  claim, and the tweak with the claim script tree is on that session;
  \<open>getBoltzPartialSignature\<close> right after the service has answered with the claim
  details, for the keys of the lockup, and the tweak with the lockup script tree is on that
  session. Neither constructs another session. Along any run of either callback from a
  state without sessions, the seeds of the sessions constructed are, in order, exactly the
  random draws made during the run: every session has a draw of its own. Whenever these
  draws are pairwise distinct, which is what sampling afresh means for the random source,
  so are the seeds of all sessions, those of two sequential claim attempts among them.
\<close>

theorem session_seeds_fresh:
  assumes "h = onMessage E ent \<or> h = onMessage_liquid E ent"
    and "seedsOf (trace w) = []"
  shows "(\<exists>r rest.
            trace (snd (createClaimTransaction E p ent hex w0)) =
              trace w0 @ MusigCall (sessions w0)
                 (Construct (drawn E (draws w0)) [claimPublicKey ent, publicKey E]) r # rest \<and>
            seedsOf rest = [] \<and>
            (rest = [] \<or>
             (\<exists>tree k. deserializeSwapTree E (claimSwapTree ent) = Inr tree \<and>
                       rest = [MusigCall (sessions w0) (TweakMusig BTC tree) k]))) \<and>
         (\<exists>r rest.
            trace (snd (createClaimTransaction_liquid E p ent hex' w0)) =
              trace w0 @ MusigCall (sessions w0)
                 (Construct (drawn E (draws w0)) [claimPublicKey ent, publicKey E]) r # rest \<and>
            seedsOf rest = [] \<and>
            (rest = [] \<or>
             (\<exists>tree k. deserializeSwapTree E (claimSwapTree ent) = Inr tree \<and>
                       rest = [MusigCall (sessions w0) (TweakMusig Liquid tree) k]))) \<and>
         (getClaimDetails E (trace w0) ch (swapId ent) = Inr details \<longrightarrow>
            (\<exists>r rest.
               trace (snd (getBoltzPartialSignature E ch p ent n t w0)) =
                 trace w0 @ GetClaimDetails ch (swapId ent) #
                   MusigCall (sessions w0)
                     (Construct (drawn E (draws w0)) [lockupPublicKey ent, publicKey E]) r #
                   rest \<and>
               seedsOf rest = [] \<and>
               (rest = [] \<or>
                (\<exists>tree k rest'. deserializeSwapTree E (lockupSwapTree ent) = Inr tree \<and>
                   rest = MusigCall (sessions w0) (TweakMusig Liquid tree) k # rest')))) \<and>
         length (drawn E (draws w0)) = 32 \<and>
         seedsOf (trace (deliver h msgs w)) =
           map (drawn E) [draws w..<draws (deliver h msgs w)] \<and>
         (\<forall>seed \<in> set (seedsOf (trace (deliver h msgs w))). length seed = 32) \<and>
         (distinct (map (drawn E) [draws w..<draws (deliver h msgs w)]) \<longrightarrow>
            distinct (seedsOf (trace (deliver h msgs w))))"
proof -
  have f: "freshSeeds E w (deliver h msgs w)"
    using assms(1) freshSeeds_deliver[of E h w msgs] freshly_onMessage freshly_onMessage_liquid
    by blast
  then have s: "seedsOf (trace (deliver h msgs w)) =
      map (drawn E) [draws w..<draws (deliver h msgs w)]"
    using assms(2) unfolding freshSeeds_def by simp
  have l: "\<forall>seed \<in> set (seedsOf (trace (deliver h msgs w))). length seed = 32"
    unfolding s by (simp add: drawn_def)
  have d: "length (drawn E (draws w0)) = 32" by (simp add: drawn_def)
  have c1: "\<exists>r rest.
            trace (snd (createClaimTransaction E p ent hex w0)) =
              trace w0 @ MusigCall (sessions w0)
                 (Construct (drawn E (draws w0)) [claimPublicKey ent, publicKey E]) r # rest \<and>
            seedsOf rest = [] \<and>
            (rest = [] \<or>
             (\<exists>tree k. deserializeSwapTree E (claimSwapTree ent) = Inr tree \<and>
                       rest = [MusigCall (sessions w0) (TweakMusig BTC tree) k]))"
    using createClaimTransaction_constructs[of E p ent hex w0] by blast
  have c2: "\<exists>r rest.
            trace (snd (createClaimTransaction_liquid E p ent hex' w0)) =
              trace w0 @ MusigCall (sessions w0)
                 (Construct (drawn E (draws w0)) [claimPublicKey ent, publicKey E]) r # rest \<and>
            seedsOf rest = [] \<and>
            (rest = [] \<or>
             (\<exists>tree k. deserializeSwapTree E (claimSwapTree ent) = Inr tree \<and>
                       rest = [MusigCall (sessions w0) (TweakMusig Liquid tree) k]))"
    using createClaimTransaction_liquid_constructs[of E p ent hex' w0] by blast
  have c3: "getClaimDetails E (trace w0) ch (swapId ent) = Inr details \<longrightarrow>
            (\<exists>r rest.
               trace (snd (getBoltzPartialSignature E ch p ent n t w0)) =
                 trace w0 @ GetClaimDetails ch (swapId ent) #
                   MusigCall (sessions w0)
                     (Construct (drawn E (draws w0)) [lockupPublicKey ent, publicKey E]) r #
                   rest \<and>
               seedsOf rest = [] \<and>
               (rest = [] \<or>
                (\<exists>tree k rest'. deserializeSwapTree E (lockupSwapTree ent) = Inr tree \<and>
                   rest = MusigCall (sessions w0) (TweakMusig Liquid tree) k # rest')))"
    using getBoltzPartialSignature_constructs[of E w0 ch ent details p n t] by blast
  have c4: "distinct (map (drawn E) [draws w..<draws (deliver h msgs w)]) \<longrightarrow>
            distinct (seedsOf (trace (deliver h msgs w)))"
    unfolding s by simp
  show ?thesis by (intro conjI c1 c2 c3 d s l c4)
qed

text \<open>
  Two claim attempts in a row in the scenario: four sessions, seeded by the draws 0 to 3,
  which are 32 bytes each and differ; the first attempt constructs session 0 from draw 0
  for the keys of the claim and session 1 from draw 1 for the keys of the lockup.
\<close>

theorem session_seeds_fresh_witness:
  "seedsOf (trace (deliver (onMessage demoEnv demoEntity)
         [update ''swap1'' ''transaction.server.confirmed'' (Some ''lockup''),
          update ''swap1'' ''transaction.server.confirmed'' (Some ''lockup'')] initialWorld)) =
     [replicate 32 0, replicate 32 1, replicate 32 2, replicate 32 3] \<and>
   distinct (seedsOf (trace (deliver (onMessage demoEnv demoEntity)
         [update ''swap1'' ''transaction.server.confirmed'' (Some ''lockup''),
          update ''swap1'' ''transaction.server.confirmed'' (Some ''lockup'')] initialWorld))) \<and>
   (\<exists>r rest.
      trace (snd (createClaimTransaction demoEnv (preimage demoEntity) demoEntity
                    (Some ''lockup'') initialWorld)) =
        MusigCall 0 (Construct (replicate 32 0) [[0x02, 0x0E], [0x02, 0x01]]) r # rest \<and>
      seedsOf rest = []) \<and>
   (\<exists>r rest.
      trace (snd (getBoltzPartialSignature demoEnv BTC (preimage demoEntity) demoEntity
                    [0x0A, 0x00] demoClaimTx
                    (initialWorld\<lparr>draws := 1, sessions := 1\<rparr>))) =
        GetClaimDetails BTC ''swap1'' #
        MusigCall 1 (Construct (replicate 32 1) [[0x02, 0x0F], [0x02, 0x01]]) r # rest \<and>
      seedsOf rest = [])"
proof -
  let ?run = "deliver (onMessage demoEnv demoEntity)
         [update ''swap1'' ''transaction.server.confirmed'' (Some ''lockup''),
          update ''swap1'' ''transaction.server.confirmed'' (Some ''lockup'')] initialWorld"
  have 1: "onMessage demoEnv demoEntity = onMessage demoEnv demoEntity \<or>
           onMessage demoEnv demoEntity = onMessage_liquid demoEnv demoEntity" by simp
  have 2: "seedsOf (trace initialWorld) = []"
    by (simp add: initialWorld_def seedsOf_def List.map_filter_def)
  have u: "[0..<4] = [0, 1, 2, 3::nat]" by (simp add: upt_rec)
  have 3: "distinct (map (drawn demoEnv) [draws initialWorld..<draws ?run])"
    unfolding demo_two_attempts by (simp add: initialWorld_fields drawn_demo u)
  have 4: "getClaimDetails demoEnv (trace (initialWorld\<lparr>draws := 1, sessions := 1\<rparr>)) BTC
             (swapId demoEntity) = Inr \<lparr>serverPubNonce = [0x0D], transactionHash = [0x0E]\<rparr>"
    by (simp add: demoEnv_fields)
  note t = session_seeds_fresh[where h = "onMessage demoEnv demoEntity" and E = demoEnv
      and ent = demoEntity and w = initialWorld
      and msgs = "[update ''swap1'' ''transaction.server.confirmed'' (Some ''lockup''),
                   update ''swap1'' ''transaction.server.confirmed'' (Some ''lockup'')]"
      and p = "preimage demoEntity" and hex = "Some ''lockup''" and hex' = "''lockup''"
      and ch = BTC and details = "\<lparr>serverPubNonce = [0x0D], transactionHash = [0x0E]\<rparr>"
      and n = "[0x0A, 0x00]" and t = demoClaimTx, OF 1 2]
  have a: "seedsOf (trace ?run) = [replicate 32 0, replicate 32 1, replicate 32 2, replicate 32 3]"
    using t[of initialWorld] unfolding demo_two_attempts
    by (simp add: initialWorld_fields drawn_demo u)
  have b: "distinct (seedsOf (trace ?run))"
    using t[of initialWorld] 3 by blast
  have c: "\<exists>r rest.
      trace (snd (createClaimTransaction demoEnv (preimage demoEntity) demoEntity
                    (Some ''lockup'') initialWorld)) =
        MusigCall 0 (Construct (replicate 32 0) [[0x02, 0x0E], [0x02, 0x01]]) r # rest \<and>
      seedsOf rest = []"
    using t[of initialWorld]
    by (simp add: initialWorld_fields drawn_demo demoEntity_fields demoEnv_fields) blast
  have d: "\<exists>r rest.
      trace (snd (getBoltzPartialSignature demoEnv BTC (preimage demoEntity) demoEntity
                    [0x0A, 0x00] demoClaimTx
                    (initialWorld\<lparr>draws := 1, sessions := 1\<rparr>))) =
        GetClaimDetails BTC ''swap1'' #
        MusigCall 1 (Construct (replicate 32 1) [[0x02, 0x0F], [0x02, 0x01]]) r # rest \<and>
      seedsOf rest = []"
    using t[of "initialWorld\<lparr>draws := 1, sessions := 1\<rparr>"] 4
    by (simp add: initialWorld_fields drawn_demo demoEntity_fields demoEnv_fields) blast
  show ?thesis using a b c d by blast
qed

section \<open>The value of the claim transaction\<close>

text \<open>
  C7 does not hold as stated. Registering the swap of the scenario gives the entity with
  fee rate 2, miner fees 500 and service fee 64. Detection on the lockup transaction selects
  index 1, and the claim transaction built from it has the single output value 24978, the
  25200 sats of the detected output less the fee of 222; the claimed value
  25000 - 500 - 64 is 24436. With both fees of the entity set to zero the claim transaction is
  the same, so its value cannot follow them.
\<close>

theorem claim_value_not_amount_minus_fees:
  "fst (startBoltzChainSwapWithListeners demoEnv ''bcrt1q'' 25000 initialWorld) =
     Inr (\<lparr>responseId = ''swap1'',
           dtoLockupDetails = \<lparr>serverPublicKey = [0x02, 0x0F], swapTree = ''lockupTree'',
                                blindingKey = [0x04]\<rparr>,
           dtoClaimDetails = \<lparr>serverPublicKey = [0x02, 0x0E], swapTree = ''claimTree'',
                               blindingKey = []\<rparr>\<rparr>, demoEntity) \<and>
   feeRate demoEntity = 2 \<and> minerFees demoEntity = 500 \<and> boltzFee demoEntity = Num 64 \<and>
   fst (createClaimTransaction demoEnv (preimage demoEntity) demoEntity (Some ''lockup'')
          initialWorld) = Inr (demoDetails 0) \<and>
   vout (swapOutput (demoDetails 0)) = 1 \<and>
   map outValue (outs (transaction (demoDetails 0))) = [24978] \<and>
   25000 - minerFees demoEntity - 64 = 24436 \<and>
   fst (createClaimTransaction demoEnv (preimage demoEntity)
          (demoEntity\<lparr>minerFees := 0, boltzFee := Num 0\<rparr>) (Some ''lockup'') initialWorld)
     = Inr (demoDetails 0)"
  using demo_start
  by (simp add: createClaimTransaction_ignores_fees demo_createClaimTransaction
      demoDetails_fields demoOutput_def demoClaimTx_def demoEntity_fields initialWorld_fields)

text \<open>
  C7, amended. With the library functions as the spec describes them, a positive fee rate
  and a positive size of every transaction, a claim transaction that
  \<open>createClaimTransaction\<close> returns spends the first output of the lockup transaction
  that is a Taproot output for the key that the tweak of the claim session with the claim
  script tree returned: its single input is that output, and its single output pays to the
  address of the user the value of that output less a fee, which is positive, below that
  value, and within one unit of the ceiling of size times the fee rate of the entity. The
  miner fees and the service fee of the entity, which \<open>calculateLockupSend\<close> computed at
  registration (\<open>calculateLockupSend_returns\<close>), are not read: changing them changes
  nothing.
\<close>

theorem claim_value_is_output_minus_fee:
  assumes "detectSwap E = detectSwap_spec"
    and "constructClaimTransaction E = constructClaimTransaction_spec"
    and "targetFee E = targetFee_spec vsize"
    and "0 < feeRate ent" and "\<forall>t. 0 < vsize t"
    and "fst (createClaimTransaction E p ent hex w) = Inr d"
  shows "(\<exists>r tree key h lockupTx fee script.
            musigLib E (trace w) (sessions w)
              (Construct (drawn E (draws w)) [claimPublicKey ent, publicKey E]) = Inr r \<and>
            deserializeSwapTree E (claimSwapTree ent) = Inr tree \<and>
            musigLib E
              (trace w @ [MusigCall (sessions w)
                 (Construct (drawn E (draws w)) [claimPublicKey ent, publicKey E]) (Inr r)])
              (sessions w) (TweakMusig BTC tree) = Inr key \<and>
            hex = Some h \<and> transactionFromHex E h = Inr lockupTx \<and>
            vout (swapOutput d) < length (outs lockupTx) \<and>
            isTaprootOutputFor key (outs lockupTx ! vout (swapOutput d)) \<and>
            (\<forall>j < vout (swapOutput d). \<not> isTaprootOutputFor key (outs lockupTx ! j)) \<and>
            swapValue (swapOutput d) = outValue (outs lockupTx ! vout (swapOutput d)) \<and>
            swapScript (swapOutput d) = outScript (outs lockupTx ! vout (swapOutput d)) \<and>
            ins (transaction d) =
              [\<lparr>prevHash = getHash E lockupTx, prevIndex = vout (swapOutput d),
                witness = []\<rparr>] \<and>
            toOutputScript E BTC (userAddress ent) = Inr script \<and>
            outs (transaction d) =
              [\<lparr>outValue = outValue (outs lockupTx ! vout (swapOutput d)) - fee,
                outScript = script\<rparr>] \<and>
            0 < fee \<and> fee < outValue (outs lockupTx ! vout (swapOutput d)) \<and>
            \<bar>\<lceil>of_nat (vsize (transaction d)) * feeRate ent\<rceil> - fee\<bar> \<le> 1) \<and>
         (\<forall>m b. createClaimTransaction E p (ent\<lparr>minerFees := m, boltzFee := b\<rparr>) hex w =
                createClaimTransaction E p ent hex w)"
proof -
  obtain w' where c: "createClaimTransaction E p ent hex w = (Inr d, w')"
    using assms(6) by (cases "createClaimTransaction E p ent hex w") simp
  from createClaimTransaction_built[OF c] obtain r tree key h lockupTx where
    k: "musigLib E (trace w) (sessions w)
              (Construct (drawn E (draws w)) [claimPublicKey ent, publicKey E]) = Inr r"
       "deserializeSwapTree E (claimSwapTree ent) = Inr tree"
       "musigLib E
              (trace w @ [MusigCall (sessions w)
                 (Construct (drawn E (draws w)) [claimPublicKey ent, publicKey E]) (Inr r)])
              (sessions w) (TweakMusig BTC tree) = Inr key" and
    h: "hex = Some h" "transactionFromHex E h = Inr lockupTx" and
    det: "detectSwap_spec key lockupTx = Some (swapOutput d)" and
    tf: "targetFee_spec vsize (feeRate ent) (\<lambda>fee.
              case toOutputScript E BTC (userAddress ent) of
                Inl e \<Rightarrow> Inl e
              | Inr script \<Rightarrow>
                  constructClaimTransaction_spec BTC
                    [\<lparr>utxoOutput = swapOutput d, utxoPreimage = p, utxoCooperative = True,
                      utxoTxHash = getHash E lockupTx, utxoBlindingPrivateKey = None\<rparr>]
                    script fee None) = Inr (transaction d)"
    unfolding assms(1,2,3) by blast
  from detectFrom_Some[OF det[unfolded detectSwap_spec_def]]
  have first: "vout (swapOutput d) < length (outs lockupTx)"
      "isTaprootOutputFor key (outs lockupTx ! vout (swapOutput d))"
      "\<forall>j < vout (swapOutput d). \<not> isTaprootOutputFor key (outs lockupTx ! j)"
      "swapValue (swapOutput d) = outValue (outs lockupTx ! vout (swapOutput d))"
      "swapScript (swapOutput d) = outScript (outs lockupTx ! vout (swapOutput d))"
    by simp_all
  from targetFee_search_Inr[OF tf[unfolded targetFee_spec_def] _ assms(4,5)] obtain fee where
    b: "(case toOutputScript E BTC (userAddress ent) of
                Inl e \<Rightarrow> Inl e
              | Inr script \<Rightarrow>
                  constructClaimTransaction_spec BTC
                    [\<lparr>utxoOutput = swapOutput d, utxoPreimage = p, utxoCooperative = True,
                      utxoTxHash = getHash E lockupTx, utxoBlindingPrivateKey = None\<rparr>]
                    script fee None) = Inr (transaction d)" and
    fpos: "0 < fee" and
    near: "\<bar>\<lceil>of_nat (vsize (transaction d)) * feeRate ent\<rceil> - fee\<bar> \<le> 1"
    by auto
  from b obtain script where s: "toOutputScript E BTC (userAddress ent) = Inr script"
    and kk: "constructClaimTransaction_spec BTC
              [\<lparr>utxoOutput = swapOutput d, utxoPreimage = p, utxoCooperative = True,
                utxoTxHash = getHash E lockupTx, utxoBlindingPrivateKey = None\<rparr>]
              script fee None = Inr (transaction d)"
    by (cases "toOutputScript E BTC (userAddress ent)") auto
  from constructClaimTransaction_spec_Inr[OF kk]
  have o: "outs (transaction d) =
              [\<lparr>outValue = outValue (outs lockupTx ! vout (swapOutput d)) - fee,
                outScript = script\<rparr>]"
    and below: "fee < outValue (outs lockupTx ! vout (swapOutput d))"
    and i: "ins (transaction d) =
              [\<lparr>prevHash = getHash E lockupTx, prevIndex = vout (swapOutput d),
                witness = []\<rparr>]"
    using first(4) by simp_all
  have same: "\<forall>m b. createClaimTransaction E p (ent\<lparr>minerFees := m, boltzFee := b\<rparr>) hex w =
                createClaimTransaction E p ent hex w"
    by (simp add: createClaimTransaction_ignores_fees)
  show ?thesis
    using k h first i s o fpos below near same by blast
qed

text \<open>
  In the scenario: the key of the tweak is the one of output 1 of the lockup transaction,
  behind a decoy; the claim transaction spends that output of 25200 and pays 24978, the
  fee being 222.
\<close>

theorem claim_value_is_output_minus_fee_witness:
  "(\<exists>r tree key h lockupTx fee script.
      musigLib demoEnv (trace initialWorld) (sessions initialWorld)
        (Construct (drawn demoEnv (draws initialWorld))
           [claimPublicKey demoEntity, publicKey demoEnv]) = Inr r \<and>
      deserializeSwapTree demoEnv (claimSwapTree demoEntity) = Inr tree \<and>
      musigLib demoEnv
        (trace initialWorld @ [MusigCall (sessions initialWorld)
           (Construct (drawn demoEnv (draws initialWorld))
              [claimPublicKey demoEntity, publicKey demoEnv]) (Inr r)])
        (sessions initialWorld) (TweakMusig BTC tree) = Inr key \<and>
      Some ''lockup'' = Some h \<and> transactionFromHex demoEnv h = Inr lockupTx \<and>
      vout (swapOutput (demoDetails 0)) < length (outs lockupTx) \<and>
      isTaprootOutputFor key (outs lockupTx ! vout (swapOutput (demoDetails 0))) \<and>
      (\<forall>j < vout (swapOutput (demoDetails 0)). \<not> isTaprootOutputFor key (outs lockupTx ! j)) \<and>
      swapValue (swapOutput (demoDetails 0)) =
        outValue (outs lockupTx ! vout (swapOutput (demoDetails 0))) \<and>
      swapScript (swapOutput (demoDetails 0)) =
        outScript (outs lockupTx ! vout (swapOutput (demoDetails 0))) \<and>
      ins (transaction (demoDetails 0)) =
        [\<lparr>prevHash = getHash demoEnv lockupTx, prevIndex = vout (swapOutput (demoDetails 0)),
          witness = []\<rparr>] \<and>
      toOutputScript demoEnv BTC (userAddress demoEntity) = Inr script \<and>
      outs (transaction (demoDetails 0)) =
        [\<lparr>outValue = outValue (outs lockupTx ! vout (swapOutput (demoDetails 0))) - fee,
          outScript = script\<rparr>] \<and>
      0 < fee \<and> fee < outValue (outs lockupTx ! vout (swapOutput (demoDetails 0))) \<and>
      \<bar>\<lceil>of_nat ((\<lambda>t. 111) (transaction (demoDetails 0))) * feeRate demoEntity\<rceil> - fee\<bar> \<le> 1) \<and>
   (\<forall>m b. createClaimTransaction demoEnv (preimage demoEntity)
            (demoEntity\<lparr>minerFees := m, boltzFee := b\<rparr>) (Some ''lockup'') initialWorld =
          createClaimTransaction demoEnv (preimage demoEntity) demoEntity (Some ''lockup'')
            initialWorld) \<and>
   musigLib demoEnv
     [MusigCall 0 (Construct (drawn demoEnv 0) [[0x02, 0x0E], [0x02, 0x01]]) (Inr [])]
     0 (TweakMusig BTC [0x07]) = Inr demoKey \<and>
   map (isTaprootOutputFor demoKey) (outs demoLockupTx) = [False, True, False] \<and>
   map outValue (outs demoLockupTx) = [70000, 25200, 1234] \<and>
   vout (swapOutput (demoDetails 0)) = 1 \<and>
   map outValue (outs (transaction (demoDetails 0))) = [24978]"
proof -
  have 1: "detectSwap demoEnv = detectSwap_spec" by (simp add: demoEnv_fields)
  have 2: "constructClaimTransaction demoEnv = constructClaimTransaction_spec"
    by (simp add: demoEnv_fields)
  have 3: "targetFee demoEnv = targetFee_spec (\<lambda>t. 111)" by (simp add: demoEnv_fields)
  have 4: "0 < feeRate demoEntity" by (simp add: demoEntity_fields)
  have 5: "\<forall>t::tx. 0 < (\<lambda>t. 111::nat) t" by simp
  have 6: "fst (createClaimTransaction demoEnv (preimage demoEntity) demoEntity (Some ''lockup'')
             initialWorld) = Inr (demoDetails 0)"
    by (simp add: demo_createClaimTransaction initialWorld_def)
  have 7: "musigLib demoEnv
     [MusigCall 0 (Construct (drawn demoEnv 0) [[0x02, 0x0E], [0x02, 0x01]]) (Inr [])]
     0 (TweakMusig BTC [0x07]) = Inr demoKey"
    by (simp add: demoEnv_fields demoMusig_def)
  have 8: "map (isTaprootOutputFor demoKey) (outs demoLockupTx) = [False, True, False]"
    "map outValue (outs demoLockupTx) = [70000, 25200, 1234]"
    by (simp_all add: demoLockupTx_def isTaprootOutputFor_def demoKey_def)
  have 9: "vout (swapOutput (demoDetails 0)) = 1"
    "map outValue (outs (transaction (demoDetails 0))) = [24978]"
    by (simp_all add: demoDetails_fields demoOutput_def demoClaimTx_def)
  show ?thesis
    using claim_value_is_output_minus_fee[OF 1 2 3 4 5 6] 7 8 9 by blast
qed

section \<open>Messages that are not for the tracked swap\<close>

text \<open>
  C9. A message whose event is not \<open>update\<close>, or whose arguments are missing, empty or
  start with null, or whose first argument names another swap id, makes the callback of
  either variant return at once: the state (status, trace with every subscription and
  pipeline call, random draws, sessions) is the one before.
\<close>

theorem untracked_message_ignored:
  assumes "event msg \<noteq> Some ''update'' \<or> args msg = None \<or> args msg = Some [] \<or>
           (\<exists>rest. args msg = Some (None # rest)) \<or>
           (\<exists>a rest. args msg = Some (Some a # rest) \<and> argId a \<noteq> swapId ent)"
  shows "onMessage E ent msg w = (Inr (), w) \<and> onMessage_liquid E ent msg w = (Inr (), w)"
  using assms
  by (auto simp: onMessage_def onMessage_liquid_def dispatch_def ret_def)

theorem untracked_message_ignored_witness:
  "onMessage demoEnv demoEntity \<lparr>event = Some ''ping'', args = None\<rparr> initialWorld =
     (Inr (), initialWorld) \<and>
   onMessage_liquid demoEnv demoEntity
     (update ''other'' ''transaction.claimed'' None) initialWorld = (Inr (), initialWorld)"
proof -
  have 1: "event \<lparr>event = Some ''ping'', args = None\<rparr> \<noteq> Some ''update''" by simp
  have 2: "\<exists>a rest. args (update ''other'' ''transaction.claimed'' None) = Some (Some a # rest) \<and>
             argId a \<noteq> swapId demoEntity"
    by (simp add: update_def demoEntity_def)
  show ?thesis
    using untracked_message_ignored
        [of "\<lparr>event = Some ''ping'', args = None\<rparr>" demoEntity demoEnv initialWorld]
      untracked_message_ignored
        [of "update ''other'' ''transaction.claimed'' None" demoEntity demoEnv initialWorld]
      1 2
    by blast
qed

section \<open>Starting a swap with a bad address or amount\<close>

text \<open>
  C10. With an empty address or an amount of zero or less, each of the three entry points
  throws \<open>Invalid address or amount\<close> and leaves the state as it was: no fee request,
  no preimage drawn, no swap created, no subscription, no listener.
\<close>

theorem invalid_start_rejected:
  assumes "userBtcAddress = [] \<or> amount \<le> 0"
  shows "startBoltzChainSwapWithListeners E userBtcAddress amount w =
           (Inl (Error ''Invalid address or amount''), w) \<and>
         startBoltzChainSwap_liquid E userBtcAddress amount w =
           (Inl (Error ''Invalid address or amount''), w) \<and>
         startBoltzChainSwapWithListeners_liquid E userBtcAddress amount w =
           (Inl (Error ''Invalid address or amount''), w)"
  using assms
  by (auto simp: startBoltzChainSwapWithListeners_def startBoltzChainSwap_liquid_def
      startBoltzChainSwapWithListeners_liquid_def throw_def)

theorem invalid_start_rejected_witness:
  "startBoltzChainSwapWithListeners demoEnv [] 25000 initialWorld =
     (Inl (Error ''Invalid address or amount''), initialWorld) \<and>
   startBoltzChainSwap_liquid demoEnv ''bcrt1q'' 0 initialWorld =
     (Inl (Error ''Invalid address or amount''), initialWorld) \<and>
   startBoltzChainSwapWithListeners_liquid demoEnv ''bcrt1q'' (- 5) initialWorld =
     (Inl (Error ''Invalid address or amount''), initialWorld)"
  using invalid_start_rejected[of "[]" 25000 demoEnv initialWorld]
    invalid_start_rejected[of "''bcrt1q''" 0 demoEnv initialWorld]
    invalid_start_rejected[of "''bcrt1q''" "- 5" demoEnv initialWorld]
  by simp


end
